theory Spec2Isabelle
  imports Main "HOL-Library.Word"
begin

section \<open>Values of the Python program\<close>

text \<open>
  The program is \<^verbatim>\<open>src/server/server.py\<close>: the class \<^verbatim>\<open>AServer\<close> with
  \<^verbatim>\<open>__init__\<close>, \<^verbatim>\<open>start\<close>, \<^verbatim>\<open>stop\<close>, \<^verbatim>\<open>handle_connection\<close> and \<^verbatim>\<open>write\<close>.

  A Python \<^verbatim>\<open>str\<close> is a sequence of Unicode code points, a \<^verbatim>\<open>bytes\<close> object a
  sequence of octets. Code points are natural numbers (below \<open>0x110000\<close> in every
  Python string); \<open>str\<close> turns an ASCII literal into its code points.
\<close>

type_synonym byte = "8 word"
type_synonym pystr = "nat list"

definition str :: "string \<Rightarrow> pystr" where
  "str cs = map of_char cs"

text \<open>
  The exceptions that the statements of the program can raise, and what a handler or
  the stream may raise besides them. \<open>OtherException\<close> carries the name of a subclass
  of \<^verbatim>\<open>Exception\<close> that is none of the classes listed and no subclass of
  \<^verbatim>\<open>ConnectionError\<close>.
\<close>

datatype exn =
    UnicodeDecodeError
  | UnicodeEncodeError
  | JSONDecodeError
  | TypeError
  | KeyError
  | AttributeError
  | SystemExit
  | TimeoutError
  | CancelledError
  | KeyboardInterrupt
  | ConnectionError
  | ConnectionResetError
  | ConnectionAbortedError
  | ConnectionRefusedError
  | BrokenPipeError
  | IncompleteReadError "byte list"
  | LimitOverrunError
  | OtherException string

text \<open>
  \<^verbatim>\<open>except (ConnectionError, asyncio.streams.IncompleteReadError)\<close>: the instances that
  the two classes of the outer handler of \<^verbatim>\<open>handle_connection\<close> match.
  \<^verbatim>\<open>ConnectionResetError\<close>, \<^verbatim>\<open>ConnectionAbortedError\<close>, \<^verbatim>\<open>ConnectionRefusedError\<close> and
  \<^verbatim>\<open>BrokenPipeError\<close> are the subclasses of \<^verbatim>\<open>ConnectionError\<close>;
  \<^verbatim>\<open>LimitOverrunError\<close> and \<^verbatim>\<open>TimeoutError\<close> are none.
\<close>

fun connection_error :: "exn \<Rightarrow> bool" where
  "connection_error ConnectionError = True"
| "connection_error ConnectionResetError = True"
| "connection_error ConnectionAbortedError = True"
| "connection_error ConnectionRefusedError = True"
| "connection_error BrokenPipeError = True"
| "connection_error (IncompleteReadError partial) = True"
| "connection_error e = False"

subsection \<open>Encoding and decoding\<close>

text \<open>
  \<^verbatim>\<open>message.encode()\<close> is UTF-8 with the strict error handler: a surrogate code point
  (\<open>0xD800\<close> to \<open>0xDFFF\<close>) raises \<^verbatim>\<open>UnicodeEncodeError\<close>. Python strings can hold lone
  surrogates; \<^verbatim>\<open>json.loads('"\\ud800"')\<close> returns one.
\<close>

fun encode_char :: "nat \<Rightarrow> exn + byte list" where
  "encode_char c =
     (if c < 0x80 then Inr [of_nat c]
      else if c < 0x800 then Inr [of_nat (0xC0 + c div 0x40), of_nat (0x80 + c mod 0x40)]
      else if 0xD800 \<le> c \<and> c \<le> 0xDFFF then Inl UnicodeEncodeError
      else if c < 0x10000 then
        Inr [of_nat (0xE0 + c div 0x1000), of_nat (0x80 + c div 0x40 mod 0x40),
             of_nat (0x80 + c mod 0x40)]
      else
        Inr [of_nat (0xF0 + c div 0x40000), of_nat (0x80 + c div 0x1000 mod 0x40),
             of_nat (0x80 + c div 0x40 mod 0x40), of_nat (0x80 + c mod 0x40)])"

fun encode :: "pystr \<Rightarrow> exn + byte list" where
  "encode [] = Inr []"
| "encode (c # cs) =
     (case encode_char c of
        Inl e \<Rightarrow> Inl e
      | Inr bs \<Rightarrow> (case encode cs of Inl e \<Rightarrow> Inl e | Inr rest \<Rightarrow> Inr (bs @ rest)))"

text \<open>\<^verbatim>\<open>data.decode('ascii')\<close>: every octet must be below \<open>0x80\<close>.\<close>

definition decode_ascii :: "byte list \<Rightarrow> exn + pystr" where
  "decode_ascii bs =
     (if list_all (\<lambda>b. b < 0x80) bs then Inr (map unat bs) else Inl UnicodeDecodeError)"

text \<open>\<^verbatim>\<open>message.replace("%", "%%")\<close>: every \<open>%\<close> (code point \<open>0x25\<close>) becomes two.\<close>

fun replace_percent :: "pystr \<Rightarrow> pystr" where
  "replace_percent [] = []"
| "replace_percent (c # cs) =
     (if c = 0x25 then 0x25 # 0x25 # replace_percent cs else c # replace_percent cs)"

section \<open>The server object\<close>

text \<open>
  The fields of \<^verbatim>\<open>AServer\<close>: \<open>port\<close>, and the private \<open>writer\<close> (\<^verbatim>\<open>self.__writer\<close>,
  a reference to a stream writer or \<^verbatim>\<open>None\<close>), \<open>alive\<close> (\<^verbatim>\<open>self.__alive\<close>) and \<open>loop\<close>
  (\<^verbatim>\<open>self.__loop\<close>, \<^verbatim>\<open>None\<close> until \<^verbatim>\<open>start\<close>). A stream writer is named by a number.
  Two more fields record what the object does to the world around it: \<open>wire\<close> lists,
  oldest first, the byte strings handed to a writer's transport by
  \<^verbatim>\<open>writer.write\<close>, and \<open>exit_called\<close> says whether \<^verbatim>\<open>exit()\<close> has been called. The
  calls to the logger change nothing else and return \<^verbatim>\<open>None\<close>; they are left out.
\<close>

datatype event_loop = Running | Stopping

record aserver =
  port :: int
  writer :: "nat option"
  alive :: bool
  loop :: "event_loop option"
  wire :: "(nat \<times> byte list) list"
  exit_called :: bool

definition init :: "int \<Rightarrow> aserver" where
  "init p = \<lparr>port = p, writer = None, alive = False, loop = None, wire = [],
             exit_called = False\<rparr>"

text \<open>The timeout interval for processing a request, in seconds.\<close>

definition REQUEST_TIMEOUT :: nat where
  "REQUEST_TIMEOUT = 5"

definition start :: "aserver \<Rightarrow> aserver" where
  "start s = s\<lparr>loop := Some Running, alive := True\<rparr>"

text \<open>
  \<^verbatim>\<open>stop\<close>: \<^verbatim>\<open>self.__loop.stop()\<close> (an \<^verbatim>\<open>AttributeError\<close> while \<^verbatim>\<open>self.__loop\<close> is
  \<^verbatim>\<open>None\<close>), \<^verbatim>\<open>self.__alive = False\<close>, then \<^verbatim>\<open>exit()\<close>, which raises \<^verbatim>\<open>SystemExit\<close>.
  The result is the exception raised, if any, and the object afterwards.
\<close>

definition stop :: "aserver \<Rightarrow> exn option \<times> aserver" where
  "stop s =
     (case loop s of
        None \<Rightarrow> (Some AttributeError, s)
      | Some l \<Rightarrow>
          (Some SystemExit, s\<lparr>loop := Some Stopping, alive := False, exit_called := True\<rparr>))"

text \<open>
  \<^verbatim>\<open>write\<close> (the name is reserved in Isabelle, hence \<open>write_message\<close>). The first
  argument is what \<^verbatim>\<open>await self.__writer.drain()\<close> does in this call: \<open>None\<close> when it
  returns, \<open>Some e\<close> when it raises \<open>e\<close>. The result is \<open>Inl e\<close> when the call raises
  \<open>e\<close> and \<open>Inr b\<close> when it returns \<open>b\<close>.
  \<^verbatim>\<open>
      if self.__writer == None:
          return False
      message = message.replace("%", "%%")
      log.info("Writing to client: %s" % message)
      self.__writer.write(message.encode())
      try: await self.__writer.drain()
      except: return False
      return True
  \<close>
\<close>

definition write_message :: "exn option \<Rightarrow> pystr \<Rightarrow> aserver \<Rightarrow> (exn + bool) \<times> aserver" where
  "write_message drain message s =
     (case writer s of
        None \<Rightarrow> (Inr False, s)
      | Some w \<Rightarrow>
          (case encode (replace_percent message) of
             Inl e \<Rightarrow> (Inl e, s)
           | Inr bs \<Rightarrow>
               (let s' = s\<lparr>wire := wire s @ [(w, bs)]\<rparr>
                in case drain of Some e \<Rightarrow> (Inr False, s') | None \<Rightarrow> (Inr True, s'))))"

section \<open>The interpreter\<close>

text \<open>
  Two things the program does depend on the Python release that runs it.
  \<^item> \<open>streams_exports\<close>: whether the name \<^verbatim>\<open>asyncio.streams.IncompleteReadError\<close> of the
    outer \<^verbatim>\<open>except\<close> clause resolves. It does up to Python 3.7; since Python 3.8 the
    class lives in \<^verbatim>\<open>asyncio.exceptions\<close> and the module \<^verbatim>\<open>asyncio.streams\<close> has no
    such attribute, so that evaluating the clause raises \<^verbatim>\<open>AttributeError\<close>.
  \<^item> \<open>task_wait_for\<close>: whether \<^verbatim>\<open>asyncio.wait_for\<close> runs the awaitable in a task of
    its own. It does up to Python 3.11, and a task's step raises a \<^verbatim>\<open>SystemExit\<close> or
    \<^verbatim>\<open>KeyboardInterrupt\<close> of its coroutine again, out of the event loop. Where
    \<open>wait_for\<close> awaits the awaitable in the calling task, the exception reaches the
    caller's frame like any other.
\<close>

record runtime =
  streams_exports :: bool
  task_wait_for :: bool

definition python37 :: runtime where
  "python37 = \<lparr>streams_exports = True, task_wait_for = True\<rparr>"

definition python311 :: runtime where
  "python311 = \<lparr>streams_exports = False, task_wait_for = True\<rparr>"

section \<open>The stream reader\<close>

text \<open>
  \<^verbatim>\<open>reader.readuntil(b"\r\n")\<close> is \<^verbatim>\<open>asyncio.StreamReader.readuntil\<close>, library code
  that the program calls; it is modelled after the library's documentation and source.
  A reader holds the bytes received and not yet consumed (\<open>buffer\<close>), whether the
  peer has closed the stream (\<open>eof\<close>), the exception the transport has stored, if any
  (\<open>exc\<close>: a reset connection stores \<^verbatim>\<open>ConnectionResetError\<close>), the size limit of
  one read (\<open>limit\<close>; \<^verbatim>\<open>asyncio.start_server\<close> is called without one, which makes it
  65536) and the future of a suspended read (\<open>waiter\<close>): none (\<open>Idle\<close>), pending
  (\<open>Waiting\<close>), done because bytes or the end of the stream arrived (\<open>Woken\<close>), or done
  with an exception (\<open>Failed\<close>).
\<close>

definition CR :: byte where
  "CR = 0x0D"

definition LF :: byte where
  "LF = 0x0A"

datatype waiter = Idle | Waiting | Woken | Failed exn

record stream_reader =
  buffer :: "byte list"
  eof :: bool
  exc :: "exn option"
  limit :: nat
  waiter :: waiter

definition new_reader :: stream_reader where
  "new_reader = \<lparr>buffer = [], eof = False, exc = None, limit = 65536, waiter = Idle\<rparr>"

text \<open>
  What the transport does to a reader: bytes arrive, the peer closes, the connection
  fails. \<^verbatim>\<open>feed_data\<close> and \<^verbatim>\<open>feed_eof\<close> give a pending future its result;
  \<^verbatim>\<open>set_exception\<close> stores the exception and gives it to a pending future. A future
  that is done is left as it is. (The transport feeds no data after the end of the
  stream.)
\<close>

definition feed_data :: "byte list \<Rightarrow> stream_reader \<Rightarrow> stream_reader" where
  "feed_data bs r =
     (if bs = [] then r
      else r\<lparr>buffer := buffer r @ bs,
             waiter := (if waiter r = Waiting then Woken else waiter r)\<rparr>)"

definition feed_eof :: "stream_reader \<Rightarrow> stream_reader" where
  "feed_eof r = r\<lparr>eof := True, waiter := (if waiter r = Waiting then Woken else waiter r)\<rparr>"

definition set_exception :: "exn \<Rightarrow> stream_reader \<Rightarrow> stream_reader" where
  "set_exception e r =
     r\<lparr>exc := Some e, waiter := (if waiter r = Waiting then Failed e else waiter r)\<rparr>"

text \<open>\<^verbatim>\<open>buffer.find(b"\r\n")\<close>: the index of the first CR that an LF follows.\<close>

fun find_crlf :: "byte list \<Rightarrow> nat option" where
  "find_crlf (a # b # bs) =
     (if a = CR \<and> b = LF then Some 0 else map_option Suc (find_crlf (b # bs)))"
| "find_crlf bs = None"

text \<open>
  A read returns a chunk and leaves the rest in the buffer (\<open>Chunk\<close>), raises
  (\<open>Raises\<close>), or has to wait for more bytes (\<open>Pending\<close>: the coroutine is suspended
  on a new future).
  \<^verbatim>\<open>
      if self._exception is not None: raise self._exception
      offset = 0
      while True:
          buflen = len(self._buffer)
          if buflen - offset >= seplen:
              isep = self._buffer.find(separator, offset)
              if isep != -1: break
              offset = buflen + 1 - seplen
              if offset > self._limit: raise LimitOverrunError(...)
          if self._eof:
              chunk = bytes(self._buffer); self._buffer.clear()
              raise IncompleteReadError(chunk, None)
          await self._wait_for_data('readuntil')
      if isep > self._limit: raise LimitOverrunError(...)
      chunk = self._buffer[:isep + seplen]
      del self._buffer[:isep + seplen]
      return bytes(chunk)
  \<close>
  \<open>scan\<close> is one round of the \<^verbatim>\<open>while\<close> loop and what follows it, \<open>readuntil\<close> a call
  from its first line.
\<close>

datatype read_result =
    Chunk "byte list" stream_reader
  | Raises exn stream_reader
  | Pending stream_reader

definition scan :: "stream_reader \<Rightarrow> read_result" where
  "scan r =
     (case find_crlf (buffer r) of
        Some isep \<Rightarrow>
          if isep > limit r then Raises LimitOverrunError r
          else Chunk (take (isep + 2) (buffer r)) (r\<lparr>buffer := drop (isep + 2) (buffer r)\<rparr>)
      | None \<Rightarrow>
          if 2 \<le> length (buffer r) \<and> length (buffer r) - 1 > limit r
          then Raises LimitOverrunError r
          else if eof r then Raises (IncompleteReadError (buffer r)) (r\<lparr>buffer := []\<rparr>)
          else Pending (r\<lparr>waiter := Waiting\<rparr>))"

definition readuntil :: "stream_reader \<Rightarrow> read_result" where
  "readuntil r = (case exc r of Some e \<Rightarrow> Raises e r | None \<Rightarrow> scan r)"

text \<open>
  The read as the coroutine of a connection goes through it. With no future it is a
  new call of \<open>readuntil\<close>. A coroutine suspended in \<^verbatim>\<open>_wait_for_data\<close> stays there while
  its future is pending; when the future has its result the coroutine goes on in the
  \<^verbatim>\<open>while\<close> loop of \<open>readuntil\<close>, past the test of the stored exception; when the future
  holds an exception, \<^verbatim>\<open>await self._waiter\<close> raises it.
\<close>

definition read_on :: "stream_reader \<Rightarrow> read_result" where
  "read_on r =
     (case waiter r of
        Idle \<Rightarrow> readuntil r
      | Waiting \<Rightarrow> Pending r
      | Woken \<Rightarrow> scan (r\<lparr>waiter := Idle\<rparr>)
      | Failed e \<Rightarrow> Raises e (r\<lparr>waiter := Idle\<rparr>))"

section \<open>Requests and handlers\<close>

text \<open>
  What \<^verbatim>\<open>json.loads\<close> returns: \<^verbatim>\<open>None\<close>, a bool, an int, a float (kept as its
  literal), a str, a list or a dict. A dict is given by its items; a key is looked up
  in them with \<open>map_of\<close>.
\<close>

datatype json =
    JNull
  | JBool bool
  | JInt int
  | JFloat string
  | JStr pystr
  | JList "json list"
  | JDict "(pystr \<times> json) list"

text \<open>
  A handler is called with the server object and the request, and the program awaits
  \<^verbatim>\<open>asyncio.wait_for(handler(self, data), timeout=REQUEST_TIMEOUT)\<close>. Its model gives
  how that ends and the server object afterwards:
  \<^item> \<open>Done\<close>: \<open>wait_for\<close> returns;
  \<^item> \<open>InCall e\<close>: \<open>e\<close> is raised in the frame of \<^verbatim>\<open>handle_connection\<close>, by the call
    \<^verbatim>\<open>handler(self, data)\<close> itself (a plain function that raises) or by \<open>wait_for\<close>
    (\<^verbatim>\<open>TypeError\<close> for a result that cannot be awaited, \<^verbatim>\<open>TimeoutError\<close> when it gave
    up);
  \<^item> \<open>InBody e\<close>: the body of the coroutine that \<open>wait_for\<close> runs raises \<open>e\<close>.
  A call that never gives control back has no outcome and is not represented. The
  registry \<^verbatim>\<open>request_type.get_types()\<close> lives in the module \<^verbatim>\<open>jrequest\<close>; it is a
  parameter here, a dict from type names (strings) to handlers. \<^verbatim>\<open>json.loads\<close> is a
  parameter too.
\<close>

datatype outcome = Done | InCall exn | InBody exn

type_synonym handler = "json \<Rightarrow> aserver \<Rightarrow> outcome \<times> aserver"
type_synonym registry = "pystr \<Rightarrow> handler option"
type_synonym decoder = "pystr \<Rightarrow> exn + json"

text \<open>\<^verbatim>\<open>data['type']\<close>: a \<^verbatim>\<open>KeyError\<close> on a dict without the key, a \<^verbatim>\<open>TypeError\<close> on
  every value that is not a dict.\<close>

fun subscript_type :: "json \<Rightarrow> exn + json" where
  "subscript_type (JDict items) =
     (case map_of items (str ''type'') of None \<Rightarrow> Inl KeyError | Some v \<Rightarrow> Inr v)"
| "subscript_type d = Inl TypeError"

text \<open>\<^verbatim>\<open>funcs.get(data['type'])\<close>: a list or a dict is unhashable (\<^verbatim>\<open>TypeError\<close>); a
  value that is not a str equals no type name.\<close>

fun get_handler :: "registry \<Rightarrow> json \<Rightarrow> exn + handler option" where
  "get_handler funcs (JStr name) = Inr (funcs name)"
| "get_handler funcs (JList xs) = Inl TypeError"
| "get_handler funcs (JDict items) = Inl TypeError"
| "get_handler funcs t = Inr None"

text \<open>
  How a block of statements ends: it runs to its end (\<open>Normal\<close>), an exception is
  raised in the frame of \<^verbatim>\<open>handle_connection\<close> (\<open>Except\<close>), or an exception is raised
  out of the event loop, so that the coroutine never runs on (\<open>LeavesLoop\<close>).
\<close>

datatype flow = Normal | Except exn | LeavesLoop exn

text \<open>How the awaited \<open>wait_for\<close> ends for the caller, given how the handler ends.\<close>

fun await_handler :: "runtime \<Rightarrow> outcome \<Rightarrow> flow" where
  "await_handler rt Done = Normal"
| "await_handler rt (InCall e) = Except e"
| "await_handler rt (InBody e) =
     (if task_wait_for rt \<and> (e = SystemExit \<or> e = KeyboardInterrupt) then LeavesLoop e
      else Except e)"

text \<open>
  The inner \<^verbatim>\<open>try\<close> block of the loop, on the decoded line. The result is how the
  block ends and the server object at that point.
  \<^verbatim>\<open>
      data = json.loads(data)
      if(data['type'] == 'terminate'):
          self.stop()
      funcs = request_type.get_types()
      if(funcs.get(data['type'])):
          await asyncio.wait_for(funcs[data['type']](self, data), timeout=REQUEST_TIMEOUT)
  \<close>
\<close>

definition request ::
  "runtime \<Rightarrow> decoder \<Rightarrow> registry \<Rightarrow> pystr \<Rightarrow> aserver \<Rightarrow> flow \<times> aserver"
where
  "request rt loads funcs line s =
     (case loads line of
        Inl e \<Rightarrow> (Except e, s)
      | Inr d \<Rightarrow>
          (case subscript_type d of
             Inl e \<Rightarrow> (Except e, s)
           | Inr t \<Rightarrow>
               (case (if t = JStr (str ''terminate'') then stop s else (None, s)) of
                  (Some e, s') \<Rightarrow> (Except e, s')
                | (None, s') \<Rightarrow>
                    (case get_handler funcs t of
                       Inl e \<Rightarrow> (Except e, s')
                     | Inr None \<Rightarrow> (Normal, s')
                     | Inr (Some h) \<Rightarrow>
                         (case h d s' of (out, s'') \<Rightarrow> (await_handler rt out, s''))))))"

text \<open>
  The body of the loop after the read: \<^verbatim>\<open>continue\<close> on a \<^verbatim>\<open>UnicodeDecodeError\<close>,
  and \<^verbatim>\<open>except: pass\<close> around the inner block, which drops every exception raised in
  the frame. The result is the exception that leaves the event loop, if any, and the
  server object.
\<close>

definition serve ::
  "runtime \<Rightarrow> decoder \<Rightarrow> registry \<Rightarrow> byte list \<Rightarrow> aserver \<Rightarrow> exn option \<times> aserver"
where
  "serve rt loads funcs data s =
     (case decode_ascii data of
        Inl e \<Rightarrow> (None, s)
      | Inr line \<Rightarrow>
          (case request rt loads funcs line s of
             (LeavesLoop e, s') \<Rightarrow> (Some e, s')
           | (Except e, s') \<Rightarrow> (None, s')
           | (Normal, s') \<Rightarrow> (None, s')))"

section \<open>The connection\<close>

text \<open>
  \<^verbatim>\<open>while self.__alive: data = await reader.readuntil(b"\r\n"); ...\<close> A run of the
  coroutine ends suspended in the read (\<open>Suspended\<close>), by leaving the loop
  (\<open>Returned\<close>), with an exception raised in its frame (\<open>Raised\<close>), or with an
  exception that left the event loop (\<open>LoopExit\<close>). The run starts in the read when
  the reader has a future (the coroutine was suspended there), and at the loop's test
  otherwise.
\<close>

datatype status = Suspended | Returned | Raised exn | LoopExit exn

function conn_loop ::
  "runtime \<Rightarrow> decoder \<Rightarrow> registry \<Rightarrow> stream_reader \<Rightarrow> aserver \<Rightarrow>
     status \<times> stream_reader \<times> aserver"
where
  "conn_loop rt loads funcs r s =
     (if waiter r \<noteq> Idle \<or> alive s then
        (case read_on r of
           Pending r' \<Rightarrow> (Suspended, r', s)
         | Raises e r' \<Rightarrow> (Raised e, r', s)
         | Chunk data r' \<Rightarrow>
             (case serve rt loads funcs data s of
                (Some e, s') \<Rightarrow> (LoopExit e, r', s')
              | (None, s') \<Rightarrow> conn_loop rt loads funcs r' s'))
      else (Returned, r, s))"
  by pat_completeness auto
termination
proof (relation "measure (\<lambda>(rt, loads, funcs, r, s). length (buffer r))")
  show "wf (measure (\<lambda>(rt, loads, funcs, r, s). length (buffer r)))"
    by simp
next
  fix rt :: runtime and loads :: decoder and funcs :: registry
    and r r' :: stream_reader and s s' :: aserver and data :: "byte list"
  assume "read_on r = Chunk data r'"
  then obtain isep where found: "find_crlf (buffer r) = Some isep"
    and rest: "buffer r' = drop (isep + 2) (buffer r)"
    by (auto simp: read_on_def readuntil_def scan_def split: waiter.splits option.splits if_splits)
  have "\<And>bs i. find_crlf bs = Some i \<Longrightarrow> bs \<noteq> []"
    by auto
  with found have "buffer r \<noteq> []"
    by blast
  with rest have "length (buffer r') < length (buffer r)"
    by simp
  then show "((rt, loads, funcs, r', s'), (rt, loads, funcs, r, s))
      \<in> measure (\<lambda>(rt, loads, funcs, r, s). length (buffer r))"
    by simp
qed

text \<open>
  The outer \<^verbatim>\<open>try\<close> of \<^verbatim>\<open>handle_connection\<close>:
  \<^verbatim>\<open>except (ConnectionError, asyncio.streams.IncompleteReadError): self.__writer = None\<close>.
  The classes of the clause are looked up when an exception reaches it. Where the
  second name does not resolve, the lookup raises \<^verbatim>\<open>AttributeError\<close> in place of
  whatever arrived; where it does, an exception of another class goes on out of the
  coroutine.
\<close>

definition guard ::
  "runtime \<Rightarrow> status \<times> stream_reader \<times> aserver \<Rightarrow> status \<times> stream_reader \<times> aserver"
where
  "guard rt res =
     (case res of
        (Raised e, r, s) \<Rightarrow>
          if \<not> streams_exports rt then (Raised AttributeError, r, s)
          else if connection_error e then (Returned, r, s\<lparr>writer := None\<rparr>)
          else (Raised e, r, s)
      | (st, r, s) \<Rightarrow> (st, r, s))"

text \<open>
  \<^verbatim>\<open>handle_connection(self, reader, writer)\<close> runs from \<^verbatim>\<open>self.__writer = writer\<close> until
  the coroutine is suspended or done; a connection starts with a reader of its own, on
  which nothing waits. \<open>resume\<close> runs a suspended coroutine on, after the transport
  has fed its reader.
\<close>

definition handle_connection ::
  "runtime \<Rightarrow> decoder \<Rightarrow> registry \<Rightarrow> stream_reader \<Rightarrow> nat \<Rightarrow> aserver \<Rightarrow>
     status \<times> stream_reader \<times> aserver"
where
  "handle_connection rt loads funcs reader w s =
     guard rt (conn_loop rt loads funcs reader (s\<lparr>writer := Some w\<rparr>))"

definition resume ::
  "runtime \<Rightarrow> decoder \<Rightarrow> registry \<Rightarrow> stream_reader \<Rightarrow> aserver \<Rightarrow>
     status \<times> stream_reader \<times> aserver"
where
  "resume rt loads funcs reader s = guard rt (conn_loop rt loads funcs reader s)"

section \<open>Frames\<close>

text \<open>
  The chunks that successive calls of \<open>readuntil\<close> return on what the reader holds,
  up to the first call that does not return, and the bytes left in the buffer then.
  These are the values of \<^verbatim>\<open>data\<close> in the loop of \<^verbatim>\<open>handle_connection\<close>.
\<close>

function read_all :: "stream_reader \<Rightarrow> byte list list" where
  "read_all r = (case readuntil r of Chunk data r' \<Rightarrow> data # read_all r' | _ \<Rightarrow> [])"
  by pat_completeness auto
termination
proof (relation "measure (\<lambda>r. length (buffer r))")
  show "wf (measure (\<lambda>r. length (buffer r)))"
    by simp
next
  fix r r' :: stream_reader and data :: "byte list"
  assume "readuntil r = Chunk data r'"
  then obtain isep where found: "find_crlf (buffer r) = Some isep"
    and rest: "buffer r' = drop (isep + 2) (buffer r)"
    by (auto simp: readuntil_def scan_def split: option.splits if_splits)
  have "\<And>bs i. find_crlf bs = Some i \<Longrightarrow> bs \<noteq> []"
    by auto
  with found have "buffer r \<noteq> []"
    by blast
  with rest show "(r', r) \<in> measure (\<lambda>r. length (buffer r))"
    by simp
qed

function unread :: "stream_reader \<Rightarrow> byte list" where
  "unread r = (case readuntil r of Chunk data r' \<Rightarrow> unread r' | _ \<Rightarrow> buffer r)"
  by pat_completeness auto
termination
proof (relation "measure (\<lambda>r. length (buffer r))")
  show "wf (measure (\<lambda>r. length (buffer r)))"
    by simp
next
  fix r r' :: stream_reader and data :: "byte list"
  assume "readuntil r = Chunk data r'"
  then obtain isep where found: "find_crlf (buffer r) = Some isep"
    and rest: "buffer r' = drop (isep + 2) (buffer r)"
    by (auto simp: readuntil_def scan_def split: option.splits if_splits)
  have "\<And>bs i. find_crlf bs = Some i \<Longrightarrow> bs \<noteq> []"
    by auto
  with found have "buffer r \<noteq> []"
    by blast
  with rest show "(r', r) \<in> measure (\<lambda>r. length (buffer r))"
    by simp
qed

text \<open>The number of places in a byte string where CR LF stands.\<close>

fun count_crlf :: "byte list \<Rightarrow> nat" where
  "count_crlf (a # b # bs) = (if a = CR \<and> b = LF then 1 else 0) + count_crlf (b # bs)"
| "count_crlf bs = 0"

text \<open>
  \<open>frames_within lim n bs\<close>: in \<open>bs\<close>, read after \<open>n\<close> bytes that no CR LF has ended
  yet, every CR LF ends a run of at most \<open>lim\<close> bytes (the delimiter not counted).
\<close>

fun frames_within :: "nat \<Rightarrow> nat \<Rightarrow> byte list \<Rightarrow> bool" where
  "frames_within lim n (a # b # bs) =
     (if a = CR \<and> b = LF then n \<le> lim \<and> frames_within lim 0 bs
      else frames_within lim (Suc n) (b # bs))"
| "frames_within lim n bs = True"

text \<open>An ASCII literal as bytes.\<close>

definition ascii :: "string \<Rightarrow> byte list" where
  "ascii cs = map of_char cs"

section \<open>Sample handlers and requests\<close>

text \<open>
  Inputs for the examples: a handler that answers \<^verbatim>\<open>pong\<close> through \<open>write\<close>, a
  handler that writes and then raises \<^verbatim>\<open>ValueError\<close>, a handler whose body calls
  \<^verbatim>\<open>exit()\<close>, and a decoder that agrees with \<^verbatim>\<open>json.loads\<close> on the lines the examples
  send (\<^verbatim>\<open>JSONDecodeError\<close> on any other line).
\<close>

definition pong :: handler where
  "pong d s =
     (case write_message None (str ''pong'') s of
        (Inl e, s') \<Rightarrow> (InBody e, s')
      | (Inr b, s') \<Rightarrow> (Done, s'))"

definition faulty :: handler where
  "faulty d s =
     (case write_message None (str ''partial'') s of
        (Inl e, s') \<Rightarrow> (InBody e, s')
      | (Inr b, s') \<Rightarrow> (InBody (OtherException ''ValueError''), s'))"

definition leaving :: handler where
  "leaving d s = (InBody SystemExit, s\<lparr>exit_called := True\<rparr>)"

definition sample_funcs :: registry where
  "sample_funcs name =
     (if name = str ''ping'' then Some pong
      else if name = str ''fail'' then Some faulty
      else if name = str ''quit'' then Some leaving
      else if name = str ''terminate'' then Some pong
      else None)"

definition typed :: "string \<Rightarrow> json" where
  "typed name = JDict [(str ''type'', JStr (str name))]"

definition sample_loads :: decoder where
  \<open>sample_loads line =
     (if line = str ''{"type":"ping"}'' @ [0x0D, 0x0A] then Inr (typed ''ping'')
      else if line = str ''{"type":"fail"}'' @ [0x0D, 0x0A] then Inr (typed ''fail'')
      else if line = str ''{"type":"quit"}'' @ [0x0D, 0x0A] then Inr (typed ''quit'')
      else if line = str ''{"type":"nope"}'' @ [0x0D, 0x0A] then Inr (typed ''nope'')
      else if line = str ''{"type":"terminate"}'' @ [0x0D, 0x0A] then Inr (typed ''terminate'')
      else if line = str ''{"kind":"ping"}'' @ [0x0D, 0x0A] then Inr (JDict [(str ''kind'', JStr (str ''ping''))])
      else if line = str ''[1]'' @ [0x0D, 0x0A] then Inr (JList [JInt 1])
      else Inl JSONDecodeError)\<close>

definition frame :: "string \<Rightarrow> byte list" where
  "frame cs = ascii cs @ [CR, LF]"

text \<open>65537 bytes with no CR among them: one more than a read may return before the delimiter.\<close>

definition oversized :: "byte list" where
  "oversized = replicate 65537 0x61"

declare conn_loop.simps [simp del]
declare read_all.simps [simp del]
declare unread.simps [simp del]

section \<open>Writing to the client\<close>

lemma set_replace_percent: "set (replace_percent m) = set m"
  by (induction m) auto

lemma encode_total:
  "\<forall>c\<in>set m. c < 0xD800 \<or> 0xDFFF < c \<Longrightarrow> \<exists>bs. encode m = Inr bs"
proof (induction m)
  case Nil
  then show ?case by simp
next
  case (Cons c cs)
  then obtain rest where "encode cs = Inr rest" by auto
  moreover from Cons.prems have "c < 0xD800 \<or> 0xDFFF < c" by simp
  then have "\<exists>bs. encode_char c = Inr bs" by auto
  ultimately show ?case by auto
qed

lemma replace_percent_doubles:
  "count_list (replace_percent m) 0x25 = 2 * count_list m 0x25"
  by (induction m) auto

lemma replace_percent_same: "0x25 \<notin> set m \<Longrightarrow> replace_percent m = m"
  by (induction m) auto

text \<open>
  C1. The claim: the \<open>%\<close> characters of a message reach the client as they are, each
  exactly once. The code at \<^verbatim>\<open>write("100% done")\<close> with a writer attached: the message
  is replaced by its escaped form before the log line is formatted, and the escaped
  form is what \<^verbatim>\<open>writer.write\<close> is given. The transport receives the ten bytes of
  \<^verbatim>\<open>100%% done\<close>, which are not the nine bytes of \<^verbatim>\<open>100% done\<close>.
\<close>

theorem write_doubles_percent:
  "write_message None (str ''100% done'') (start (init 8000)\<lparr>writer := Some 1\<rparr>) =
     (Inr True, start (init 8000)\<lparr>writer := Some 1, wire := [(1, ascii ''100%% done'')]\<rparr>)
   \<and> ascii ''100%% done'' \<noteq> ascii ''100% done''"
  by (simp add: write_message_def str_def ascii_def start_def init_def)

text \<open>
  C3, as stated (\<open>write\<close> raises for no message string), fails: a message holding a lone
  surrogate makes \<^verbatim>\<open>message.encode()\<close> raise \<^verbatim>\<open>UnicodeEncodeError\<close>, outside the
  \<^verbatim>\<open>try\<close> that guards \<^verbatim>\<open>drain\<close> only.
\<close>

theorem write_raises_on_surrogate:
  "write_message None [0xD800] (start (init 8000)\<lparr>writer := Some 1\<rparr>) =
     (Inl UnicodeEncodeError, start (init 8000)\<lparr>writer := Some 1\<rparr>)"
  by (simp add: write_message_def start_def init_def)

text \<open>
  C3, amended. With no writer attached, \<open>write\<close> returns \<^verbatim>\<open>False\<close> and changes nothing,
  for every message. With a writer attached and a message free of surrogate code
  points, \<open>write\<close> does not raise: it hands the encoded message to the writer and
  returns \<^verbatim>\<open>False\<close> when \<^verbatim>\<open>drain\<close> raises (whatever it raises), \<^verbatim>\<open>True\<close> otherwise.
\<close>

theorem write_returns_bool:
  "(writer s = None \<longrightarrow> write_message drain message s = (Inr False, s)) \<and>
   (\<forall>w. writer s = Some w \<and> (\<forall>c\<in>set message. c < 0xD800 \<or> 0xDFFF < c) \<longrightarrow>
      (\<exists>bs. encode (replace_percent message) = Inr bs \<and>
         write_message drain message s = (Inr (drain = None), s\<lparr>wire := wire s @ [(w, bs)]\<rparr>)))"
proof (intro conjI impI allI)
  assume "writer s = None"
  then show "write_message drain message s = (Inr False, s)"
    by (simp add: write_message_def)
next
  fix w
  assume a: "writer s = Some w \<and> (\<forall>c\<in>set message. c < 0xD800 \<or> 0xDFFF < c)"
  then have "\<forall>c\<in>set (replace_percent message). c < 0xD800 \<or> 0xDFFF < c"
    by (simp add: set_replace_percent)
  then obtain bs where bs: "encode (replace_percent message) = Inr bs"
    using encode_total by blast
  with a have "write_message drain message s = (Inr (drain = None), s\<lparr>wire := wire s @ [(w, bs)]\<rparr>)"
    by (cases drain) (simp_all add: write_message_def)
  with bs show "\<exists>bs. encode (replace_percent message) = Inr bs \<and>
         write_message drain message s = (Inr (drain = None), s\<lparr>wire := wire s @ [(w, bs)]\<rparr>)"
    by blast
qed

theorem write_returns_bool_witness:
  "write_message (Some BrokenPipeError) (str ''pong'') (start (init 8000)) =
     (Inr False, start (init 8000)) \<and>
   write_message (Some BrokenPipeError) (str ''pong'') (start (init 8000)\<lparr>writer := Some 1\<rparr>) =
     (Inr False, start (init 8000)\<lparr>writer := Some 1, wire := [(1, ascii ''pong'')]\<rparr>) \<and>
   write_message None (str ''pong'') (start (init 8000)\<lparr>writer := Some 1\<rparr>) =
     (Inr True, start (init 8000)\<lparr>writer := Some 1, wire := [(1, ascii ''pong'')]\<rparr>)"
  using write_returns_bool [of "start (init 8000)" "Some BrokenPipeError" "str ''pong''"]
    write_returns_bool [of "start (init 8000)\<lparr>writer := Some 1\<rparr>" "Some BrokenPipeError" "str ''pong''"]
    write_returns_bool [of "start (init 8000)\<lparr>writer := Some 1\<rparr>" None "str ''pong''"]
  by (simp add: str_def ascii_def start_def init_def)

text \<open>
  C9. \<open>write\<close> is not atomic on failure: when \<^verbatim>\<open>drain\<close> raises after
  \<^verbatim>\<open>writer.write\<close> has taken the bytes, \<open>write\<close> returns \<^verbatim>\<open>False\<close> although the message
  has been handed to the transport (the \<open>wire\<close> has grown by it). Only with no writer
  attached does \<^verbatim>\<open>False\<close> come with no effect at all.
\<close>

theorem write_not_atomic:
  "(writer s = Some w \<and> encode (replace_percent message) = Inr bs \<longrightarrow>
      write_message (Some e) message s = (Inr False, s\<lparr>wire := wire s @ [(w, bs)]\<rparr>) \<and>
      wire (snd (write_message (Some e) message s)) \<noteq> wire s) \<and>
   (writer s = None \<longrightarrow> write_message drain message s = (Inr False, s))"
  by (simp add: write_message_def)

theorem write_not_atomic_witness:
  "write_message (Some ConnectionResetError) (str ''pong'') (start (init 8000)\<lparr>writer := Some 1\<rparr>) =
     (Inr False, start (init 8000)\<lparr>writer := Some 1, wire := [(1, ascii ''pong'')]\<rparr>) \<and>
   write_message (Some ConnectionResetError) (str ''pong'') (start (init 8000)) =
     (Inr False, start (init 8000))"
  using write_not_atomic [of "start (init 8000)\<lparr>writer := Some 1\<rparr>" 1 "str ''pong''" "ascii ''pong''" ConnectionResetError]
    write_not_atomic [of "start (init 8000)" 1 "str ''pong''" "ascii ''pong''" ConnectionResetError "Some ConnectionResetError"]
  by (simp add: str_def ascii_def start_def init_def)

section \<open>The frame reader\<close>

lemma count_crlf_LF: "count_crlf (LF # bs) = count_crlf bs"
  by (cases bs) (simp_all add: CR_def LF_def)

lemma find_crlf_Some:
  "find_crlf bs = Some i \<Longrightarrow>
   \<exists>body rest. bs = body @ CR # LF # rest \<and> length body = i \<and>
     count_crlf (body @ [CR, LF]) = 1 \<and> count_crlf bs = Suc (count_crlf rest)"
proof (induction bs arbitrary: i rule: find_crlf.induct)
  case (1 a b bs)
  show ?case
  proof (cases "a = CR \<and> b = LF")
    case True
    with "1.prems" have "i = 0" by simp
    with True show ?thesis
      by (auto simp: count_crlf_LF intro!: exI [of _ "[]"])
  next
    case False
    with "1.prems" obtain j where j: "find_crlf (b # bs) = Some j" and i: "i = Suc j"
      by auto
    from "1.IH" [OF False j] obtain body rest where
      eq: "b # bs = body @ CR # LF # rest" and len: "length body = j"
      and one: "count_crlf (body @ [CR, LF]) = 1" and cnt: "count_crlf (b # bs) = Suc (count_crlf rest)"
      by blast
    obtain c cs where bc: "body @ [CR, LF] = c # cs" and cb: "c = b"
      using eq by (cases body) auto
    have "count_crlf ((a # body) @ [CR, LF]) = 1"
      using one False bc cb by simp
    moreover have "count_crlf (a # b # bs) = Suc (count_crlf rest)"
      using cnt False by simp
    moreover have "a # b # bs = (a # body) @ CR # LF # rest"
      using eq by simp
    ultimately show ?thesis
      using len i by (metis length_Cons)
  qed
qed simp_all

lemma find_crlf_None: "find_crlf bs = None \<longleftrightarrow> count_crlf bs = 0"
  by (induction bs rule: find_crlf.induct) auto

lemma find_crlf_bound: "find_crlf bs = Some i \<Longrightarrow> i + 2 \<le> length bs"
  using find_crlf_Some by fastforce

lemma find_crlf_no_CR: "CR \<notin> set bs \<Longrightarrow> find_crlf bs = None"
  by (induction bs rule: find_crlf.induct) auto

lemma find_crlf_after: "CR \<notin> set bs \<Longrightarrow> find_crlf (bs @ CR # LF # rest) = Some (length bs)"
proof (induction bs)
  case Nil
  then show ?case by simp
next
  case (Cons a bs)
  then have "a \<noteq> CR" and ih: "find_crlf (bs @ CR # LF # rest) = Some (length bs)"
    by auto
  obtain c cs where "bs @ CR # LF # rest = c # cs"
    by (cases bs) auto
  with \<open>a \<noteq> CR\<close> ih show ?case
    by simp
qed

lemma count_crlf_after: "CR \<notin> set bs \<Longrightarrow> count_crlf (bs @ [CR, LF]) = 1"
proof (induction bs)
  case Nil
  then show ?case by simp
next
  case (Cons a bs)
  then have "a \<noteq> CR" and ih: "count_crlf (bs @ [CR, LF]) = 1"
    by auto
  obtain c cs where "bs @ [CR, LF] = c # cs"
    by (cases bs) auto
  with \<open>a \<noteq> CR\<close> ih show ?case
    by simp
qed

lemma frames_within_found:
  "find_crlf bs = Some i \<Longrightarrow>
   frames_within lim n bs = (n + i \<le> lim \<and> frames_within lim 0 (drop (i + 2) bs))"
proof (induction bs arbitrary: i n rule: find_crlf.induct)
  case (1 a b bs)
  show ?case
  proof (cases "a = CR \<and> b = LF")
    case True
    with "1.prems" show ?thesis by auto
  next
    case False
    with "1.prems" obtain j where j: "find_crlf (b # bs) = Some j" and i: "i = Suc j"
      by auto
    from "1.IH" [OF False j, of "Suc n"] False i show ?thesis
      by auto
  qed
qed simp_all

lemma scan_Chunk:
  assumes "scan r = Chunk data r'"
  shows "\<exists>body. data = body @ [CR, LF] \<and> count_crlf data = 1 \<and>
    buffer r = data @ buffer r' \<and> count_crlf (buffer r) = Suc (count_crlf (buffer r')) \<and>
    exc r' = exc r \<and> limit r' = limit r \<and> eof r' = eof r \<and> waiter r' = waiter r \<and>
    length body \<le> limit r \<and> find_crlf (buffer r) = Some (length body)"
proof -
  from assms obtain i where found: "find_crlf (buffer r) = Some i" and lim: "i \<le> limit r"
    and data: "data = take (i + 2) (buffer r)" and r': "r' = r\<lparr>buffer := drop (i + 2) (buffer r)\<rparr>"
    by (auto simp: scan_def split: option.splits if_splits)
  from find_crlf_Some [OF found] obtain body rest where
    eq: "buffer r = body @ CR # LF # rest" and len: "length body = i"
    and one: "count_crlf (body @ [CR, LF]) = 1" and cnt: "count_crlf (buffer r) = Suc (count_crlf rest)"
    by blast
  have "data = body @ [CR, LF]"
    using data eq len by simp
  moreover have "buffer r' = rest"
    using r' eq len by simp
  ultimately show ?thesis
    using eq one cnt r' lim len found by auto
qed

lemma readuntil_Chunk:
  assumes "readuntil r = Chunk data r'"
  shows "\<exists>body. data = body @ [CR, LF] \<and> count_crlf data = 1 \<and>
    buffer r = data @ buffer r' \<and> count_crlf (buffer r) = Suc (count_crlf (buffer r')) \<and>
    exc r' = None \<and> limit r' = limit r \<and> eof r' = eof r \<and> waiter r' = waiter r \<and>
    length body \<le> limit r \<and> find_crlf (buffer r) = Some (length body)"
proof -
  from assms have "exc r = None" and "scan r = Chunk data r'"
    by (auto simp: readuntil_def split: option.splits)
  with scan_Chunk [of r data r'] show ?thesis
    by auto
qed

lemma read_on_Chunk_idle: "read_on r = Chunk data r' \<Longrightarrow> waiter r' = Idle"
proof (cases "waiter r")
  case Idle
  assume "read_on r = Chunk data r'"
  with Idle have "readuntil r = Chunk data r'" by (simp add: read_on_def)
  from readuntil_Chunk [OF this] Idle show ?thesis by auto
next
  case Woken
  assume "read_on r = Chunk data r'"
  with Woken have "scan (r\<lparr>waiter := Idle\<rparr>) = Chunk data r'" by (simp add: read_on_def)
  from scan_Chunk [OF this] show ?thesis by auto
qed (simp_all add: read_on_def)

lemma readuntil_fitting:
  assumes "exc r = None" and "frames_within (limit r) 0 (buffer r)"
    and "\<forall>data r'. readuntil r \<noteq> Chunk data r'"
  shows "count_crlf (buffer r) = 0"
proof (cases "find_crlf (buffer r)")
  case None
  then show ?thesis by (simp add: find_crlf_None)
next
  case (Some i)
  from frames_within_found [OF Some, of "limit r" 0] assms(2) have "\<not> i > limit r"
    by simp
  with Some assms(1) have "\<exists>data r'. readuntil r = Chunk data r'"
    by (simp add: readuntil_def scan_def)
  with assms(3) show ?thesis by blast
qed

text \<open>
  C4, as stated, fails in three ways. A frame is not the bytes up to and excluding the
  delimiter: \<open>readuntil\<close> returns the delimiter with the chunk, \<^verbatim>\<open>decode\<close> keeps it, and
  \<^verbatim>\<open>json.loads\<close> is called on a line that ends with CR LF (which JSON reads as white
  space). And not every occurrence of CR LF yields a frame: a delimiter that comes
  after more than 65536 bytes makes the read raise \<^verbatim>\<open>LimitOverrunError\<close>, and an
  exception that the transport has stored is raised by the read although a complete
  frame is in the buffer.
\<close>

theorem frame_read_with_delimiter:
  \<open>read_all (feed_data (frame ''{"type":"ping"}'') new_reader) =
     [ascii ''{"type":"ping"}'' @ [CR, LF]] \<and>
   ascii ''{"type":"ping"}'' @ [CR, LF] \<noteq> ascii ''{"type":"ping"}'' \<and>
   decode_ascii (frame ''{"type":"ping"}'') = Inr (str ''{"type":"ping"}'' @ [0x0D, 0x0A]) \<and>
   (\<forall>rt loads funcs s. serve rt loads funcs (frame ''{"type":"ping"}'') s =
      (case request rt loads funcs (str ''{"type":"ping"}'' @ [0x0D, 0x0A]) s of
         (LeavesLoop e, s') \<Rightarrow> (Some e, s')
       | (Except e, s') \<Rightarrow> (None, s')
       | (Normal, s') \<Rightarrow> (None, s'))) \<and>
   count_crlf (oversized @ [CR, LF]) = 1 \<and>
   readuntil (feed_data (oversized @ [CR, LF]) new_reader) =
     Raises LimitOverrunError (feed_data (oversized @ [CR, LF]) new_reader) \<and>
   read_all (feed_data (oversized @ [CR, LF]) new_reader) = [] \<and>
   count_crlf (frame ''a'') = 1 \<and>
   read_all (set_exception ConnectionResetError (feed_data (frame ''a'') new_reader)) = []\<close>
proof -
  have no_CR: "CR \<notin> set oversized"
    by (simp add: oversized_def CR_def)
  from find_crlf_after [OF no_CR, of "[]"]
  have found: "find_crlf (oversized @ [CR, LF]) = Some 65537"
    by (simp add: oversized_def)
  from count_crlf_after [OF no_CR] have one: "count_crlf (oversized @ [CR, LF]) = 1" .
  have big: "readuntil (feed_data (oversized @ [CR, LF]) new_reader) =
     Raises LimitOverrunError (feed_data (oversized @ [CR, LF]) new_reader)"
    using found by (simp add: readuntil_def scan_def feed_data_def new_reader_def)
  then have none: "read_all (feed_data (oversized @ [CR, LF]) new_reader) = []"
    by (simp add: read_all.simps [of "feed_data (oversized @ [CR, LF]) new_reader"])
  have small: \<open>read_all (feed_data (frame ''{"type":"ping"}'') new_reader) =
     [ascii ''{"type":"ping"}'' @ [CR, LF]] \<and>
   ascii ''{"type":"ping"}'' @ [CR, LF] \<noteq> ascii ''{"type":"ping"}'' \<and>
   decode_ascii (frame ''{"type":"ping"}'') = Inr (str ''{"type":"ping"}'' @ [0x0D, 0x0A]) \<and>
   (\<forall>rt loads funcs s. serve rt loads funcs (frame ''{"type":"ping"}'') s =
      (case request rt loads funcs (str ''{"type":"ping"}'' @ [0x0D, 0x0A]) s of
         (LeavesLoop e, s') \<Rightarrow> (Some e, s')
       | (Except e, s') \<Rightarrow> (None, s')
       | (Normal, s') \<Rightarrow> (None, s')))\<close>
    by (simp add: read_all.simps readuntil_def scan_def feed_data_def new_reader_def frame_def
        ascii_def CR_def LF_def serve_def decode_ascii_def str_def)
  have stored: "count_crlf (frame ''a'') = 1 \<and>
   read_all (set_exception ConnectionResetError (feed_data (frame ''a'') new_reader)) = []"
    by (simp add: read_all.simps readuntil_def set_exception_def feed_data_def new_reader_def
        frame_def ascii_def CR_def LF_def)
  from small one big none stored show ?thesis
    by blast
qed

text \<open>
  C4, amended. For every byte stream, a chunk that \<open>readuntil\<close> returns is the bytes up
  to and including the first CR LF of the buffer: it ends with the delimiter, holds
  no other one, and takes exactly one occurrence away from the buffer; a buffer with
  no CR LF yields no chunk. On a reader with no stored exception, whose buffer has no
  more than \<open>limit\<close> bytes before any CR LF (since the start or the CR LF before), the
  chunks read are as many as the occurrences of CR LF, they are the buffer in order,
  and what stays unread holds no delimiter.
\<close>

theorem frames_keep_delimiter:
  "(\<forall>data r'. readuntil r = Chunk data r' \<longrightarrow>
      (\<exists>body. data = body @ [CR, LF]) \<and> count_crlf data = 1 \<and>
      buffer r = data @ buffer r' \<and> count_crlf (buffer r) = Suc (count_crlf (buffer r'))) \<and>
   (count_crlf (buffer r) = 0 \<longrightarrow> (\<forall>data r'. readuntil r \<noteq> Chunk data r')) \<and>
   (exc r = None \<and> frames_within (limit r) 0 (buffer r) \<longrightarrow>
      length (read_all r) = count_crlf (buffer r) \<and>
      concat (read_all r) @ unread r = buffer r \<and> count_crlf (unread r) = 0 \<and>
      (\<forall>data\<in>set (read_all r). (\<exists>body. data = body @ [CR, LF]) \<and> count_crlf data = 1))"
proof (intro conjI)
  show "\<forall>data r'. readuntil r = Chunk data r' \<longrightarrow>
      (\<exists>body. data = body @ [CR, LF]) \<and> count_crlf data = 1 \<and>
      buffer r = data @ buffer r' \<and> count_crlf (buffer r) = Suc (count_crlf (buffer r'))"
    using readuntil_Chunk by blast
next
  show "count_crlf (buffer r) = 0 \<longrightarrow> (\<forall>data r'. readuntil r \<noteq> Chunk data r')"
    using readuntil_Chunk by fastforce
next
  show "exc r = None \<and> frames_within (limit r) 0 (buffer r) \<longrightarrow>
      length (read_all r) = count_crlf (buffer r) \<and>
      concat (read_all r) @ unread r = buffer r \<and> count_crlf (unread r) = 0 \<and>
      (\<forall>data\<in>set (read_all r). (\<exists>body. data = body @ [CR, LF]) \<and> count_crlf data = 1)"
  proof (induction r rule: read_all.induct)
    case (1 r)
    show ?case
    proof
      assume pre: "exc r = None \<and> frames_within (limit r) 0 (buffer r)"
      show "length (read_all r) = count_crlf (buffer r) \<and>
        concat (read_all r) @ unread r = buffer r \<and> count_crlf (unread r) = 0 \<and>
        (\<forall>data\<in>set (read_all r). (\<exists>body. data = body @ [CR, LF]) \<and> count_crlf data = 1)"
      proof (cases "readuntil r")
        case (Chunk data r')
        from readuntil_Chunk [OF Chunk] obtain body where
          data: "data = body @ [CR, LF]" and one: "count_crlf data = 1"
          and buf: "buffer r = data @ buffer r'"
          and cnt: "count_crlf (buffer r) = Suc (count_crlf (buffer r'))"
          and r': "exc r' = None" "limit r' = limit r"
          and found: "find_crlf (buffer r) = Some (length body)"
          by blast
        from buf data have "drop (length body + 2) (buffer r) = buffer r'"
          by simp
        with frames_within_found [OF found, of "limit r" 0] pre r'
        have "exc r' = None \<and> frames_within (limit r') 0 (buffer r')"
          by simp
        with "1.IH" [OF Chunk] have ih:
          "length (read_all r') = count_crlf (buffer r') \<and>
           concat (read_all r') @ unread r' = buffer r' \<and> count_crlf (unread r') = 0 \<and>
           (\<forall>data\<in>set (read_all r'). (\<exists>body. data = body @ [CR, LF]) \<and> count_crlf data = 1)"
          by blast
        have ra: "read_all r = data # read_all r'" and ur: "unread r = unread r'"
          using Chunk by (simp_all add: read_all.simps [of r] unread.simps [of r])
        from ih data one buf cnt show ?thesis
          unfolding ra ur by auto
      next
        case (Raises e r')
        then have none: "count_crlf (buffer r) = 0"
          using pre by (simp add: readuntil_fitting)
        have "read_all r = []" and "unread r = buffer r"
          using Raises by (simp_all add: read_all.simps [of r] unread.simps [of r])
        with none show ?thesis by simp
      next
        case (Pending r')
        then have none: "count_crlf (buffer r) = 0"
          using pre by (simp add: readuntil_fitting)
        have "read_all r = []" and "unread r = buffer r"
          using Pending by (simp_all add: read_all.simps [of r] unread.simps [of r])
        with none show ?thesis by simp
      qed
    qed
  qed
qed

theorem frames_keep_delimiter_witness:
  "exc (feed_data (frame ''a'' @ frame ''bc'' @ ascii ''d'') new_reader) = None \<and>
   frames_within (limit (feed_data (frame ''a'' @ frame ''bc'' @ ascii ''d'') new_reader)) 0
     (buffer (feed_data (frame ''a'' @ frame ''bc'' @ ascii ''d'') new_reader)) \<and>
   read_all (feed_data (frame ''a'' @ frame ''bc'' @ ascii ''d'') new_reader) =
     [ascii ''a'' @ [CR, LF], ascii ''bc'' @ [CR, LF]] \<and>
   length (read_all (feed_data (frame ''a'' @ frame ''bc'' @ ascii ''d'') new_reader)) = 2 \<and>
   count_crlf (frame ''a'' @ frame ''bc'' @ ascii ''d'') = 2 \<and>
   unread (feed_data (frame ''a'' @ frame ''bc'' @ ascii ''d'') new_reader) = ascii ''d'' \<and>
   readuntil (feed_data (ascii ''d'') new_reader) =
     Pending (feed_data (ascii ''d'') new_reader\<lparr>waiter := Waiting\<rparr>) \<and>
   frames_within 2 0 (frame ''a'' @ frame ''b'') \<and>
   \<not> length (frame ''a'' @ frame ''b'') \<le> 2 \<and>
   read_all (feed_data (frame ''a'' @ frame ''b'') (new_reader\<lparr>limit := 2\<rparr>)) =
     [ascii ''a'' @ [CR, LF], ascii ''b'' @ [CR, LF]] \<and>
   count_crlf (frame ''a'' @ frame ''b'') = 2"
  using frames_keep_delimiter [of "feed_data (frame ''a'' @ frame ''bc'' @ ascii ''d'') new_reader"]
    frames_keep_delimiter [of "feed_data (frame ''a'' @ frame ''b'') (new_reader\<lparr>limit := 2\<rparr>)"]
  by (simp add: read_all.simps unread.simps readuntil_def scan_def feed_data_def new_reader_def
      frame_def ascii_def CR_def LF_def)

section \<open>Dispatch\<close>

lemma stop_raises: "\<exists>e s'. stop s = (Some e, s')"
  by (simp add: stop_def split: option.splits)

lemma conn_loop_chunk:
  "waiter r \<noteq> Idle \<or> alive s \<Longrightarrow> read_on r = Chunk data r' \<Longrightarrow>
   serve rt loads funcs data s = (None, s') \<Longrightarrow>
   conn_loop rt loads funcs r s = conn_loop rt loads funcs r' s'"
  by (subst conn_loop.simps) simp

lemma conn_loop_exit:
  "waiter r \<noteq> Idle \<or> alive s \<Longrightarrow> read_on r = Chunk data r' \<Longrightarrow>
   serve rt loads funcs data s = (Some e, s') \<Longrightarrow>
   conn_loop rt loads funcs r s = (LoopExit e, r', s')"
  by (subst conn_loop.simps) simp

lemma conn_loop_raises:
  "waiter r \<noteq> Idle \<or> alive s \<Longrightarrow> read_on r = Raises e r' \<Longrightarrow>
   conn_loop rt loads funcs r s = (Raised e, r', s)"
  by (subst conn_loop.simps) simp

lemma conn_loop_pending:
  "waiter r \<noteq> Idle \<or> alive s \<Longrightarrow> read_on r = Pending r' \<Longrightarrow>
   conn_loop rt loads funcs r s = (Suspended, r', s)"
  by (subst conn_loop.simps) simp

lemma conn_loop_dead:
  "waiter r = Idle \<Longrightarrow> \<not> alive s \<Longrightarrow> conn_loop rt loads funcs r s = (Returned, r, s)"
  by (subst conn_loop.simps) simp

text \<open>
  C2. A frame that decodes to a JSON object whose \<open>type\<close> is \<^verbatim>\<open>terminate\<close>, on a started
  server (\<^verbatim>\<open>self.__loop\<close> is set), under every interpreter: the loop is told to stop,
  the liveness flag becomes false and \<^verbatim>\<open>exit()\<close> is called. The \<^verbatim>\<open>SystemExit\<close> it raises
  leaves the inner block before the registry is read, so the outcome is the same for
  every registry, also one with a handler named \<^verbatim>\<open>terminate\<close>. The \<^verbatim>\<open>except: pass\<close> of
  the loop takes the \<^verbatim>\<open>SystemExit\<close>, and the connection's loop then ends at its test.
\<close>

theorem terminate_stops_server:
  assumes "decode_ascii data = Inr line" and "loads line = Inr d"
    and "subscript_type d = Inr (JStr (str ''terminate''))" and "loop s \<noteq> None"
  shows "request rt loads funcs line s =
      (Except SystemExit, s\<lparr>loop := Some Stopping, alive := False, exit_called := True\<rparr>) \<and>
    serve rt loads funcs data s =
      (None, s\<lparr>loop := Some Stopping, alive := False, exit_called := True\<rparr>) \<and>
    (\<forall>r r'. (waiter r \<noteq> Idle \<or> alive s) \<and> read_on r = Chunk data r' \<longrightarrow>
       guard rt (conn_loop rt loads funcs r s) =
         (Returned, r', s\<lparr>loop := Some Stopping, alive := False, exit_called := True\<rparr>))"
proof -
  from assms have left: "request rt loads funcs line s =
      (Except SystemExit, s\<lparr>loop := Some Stopping, alive := False, exit_called := True\<rparr>)"
    by (auto simp: request_def stop_def)
  with assms have served: "serve rt loads funcs data s =
      (None, s\<lparr>loop := Some Stopping, alive := False, exit_called := True\<rparr>)"
    by (simp add: serve_def)
  show ?thesis
  proof (intro conjI allI impI)
    show "request rt loads funcs line s =
      (Except SystemExit, s\<lparr>loop := Some Stopping, alive := False, exit_called := True\<rparr>)"
      by (rule left)
  next
    show "serve rt loads funcs data s =
      (None, s\<lparr>loop := Some Stopping, alive := False, exit_called := True\<rparr>)"
      by (rule served)
  next
    fix r r'
    assume a: "(waiter r \<noteq> Idle \<or> alive s) \<and> read_on r = Chunk data r'"
    then have idle: "waiter r' = Idle"
      using read_on_Chunk_idle by blast
    from a served have "conn_loop rt loads funcs r s =
        conn_loop rt loads funcs r' (s\<lparr>loop := Some Stopping, alive := False, exit_called := True\<rparr>)"
      by (simp add: conn_loop_chunk)
    also have "\<dots> = (Returned, r', s\<lparr>loop := Some Stopping, alive := False, exit_called := True\<rparr>)"
      using idle by (simp add: conn_loop_dead)
    finally show "guard rt (conn_loop rt loads funcs r s) =
         (Returned, r', s\<lparr>loop := Some Stopping, alive := False, exit_called := True\<rparr>)"
      by (simp add: guard_def)
  qed
qed

theorem terminate_stops_server_witness:
  \<open>handle_connection python311 sample_loads sample_funcs
     (feed_data (frame ''{"type":"terminate"}'') new_reader) 1 (start (init 8000)) =
   (Returned, new_reader,
    init 8000\<lparr>writer := Some 1, loop := Some Stopping, alive := False, exit_called := True\<rparr>)\<close>
proof -
  let ?data = \<open>frame ''{"type":"terminate"}''\<close>
  let ?s = "start (init 8000)\<lparr>writer := Some 1\<rparr>"
  have 1: \<open>decode_ascii ?data = Inr (str ''{"type":"terminate"}'' @ [0x0D, 0x0A])\<close>
    by (simp add: decode_ascii_def frame_def ascii_def str_def CR_def LF_def)
  have 2: \<open>sample_loads (str ''{"type":"terminate"}'' @ [0x0D, 0x0A]) = Inr (typed ''terminate'')\<close>
    by (simp add: sample_loads_def str_def)
  have 3: "subscript_type (typed ''terminate'') = Inr (JStr (str ''terminate''))"
    by (simp add: typed_def)
  have 4: "loop ?s \<noteq> None"
    by (simp add: start_def)
  have 5: "read_on (feed_data ?data new_reader) = Chunk ?data new_reader"
    by (simp add: read_on_def readuntil_def scan_def feed_data_def new_reader_def frame_def
        ascii_def CR_def LF_def)
  have 6: "alive ?s"
    by (simp add: start_def)
  from terminate_stops_server [where loads = sample_loads and funcs = sample_funcs
      and s = ?s and data = ?data and rt = python311, OF 1 2 3 4] 5 6
  show ?thesis
    by (simp add: handle_connection_def start_def init_def)
qed

text \<open>
  C6, as stated (whatever a handler raises is dropped and the loop goes on), fails.
  Where \<open>wait_for\<close> runs the handler in a task of its own, a \<^verbatim>\<open>SystemExit\<close> raised in
  the body of a coroutine handler (here one that calls \<^verbatim>\<open>exit()\<close>) is raised again by
  the task's step and leaves the event loop: the \<^verbatim>\<open>except: pass\<close> never sees it, the
  coroutine of the connection does not run on, and the next frame stays unread, with
  the server's liveness flag still set.
\<close>

theorem handler_system_exit_leaves_loop:
  \<open>handle_connection python311 sample_loads sample_funcs
     (feed_data (frame ''{"type":"quit"}'' @ frame ''{"type":"ping"}'') new_reader) 1
     (start (init 8000)) =
   (LoopExit SystemExit, feed_data (frame ''{"type":"ping"}'') new_reader,
    start (init 8000)\<lparr>writer := Some 1, exit_called := True\<rparr>) \<and>
   alive (start (init 8000)\<lparr>writer := Some 1, exit_called := True\<rparr>)\<close>
proof -
  let ?quit = \<open>frame ''{"type":"quit"}''\<close>
  let ?ping = \<open>frame ''{"type":"ping"}''\<close>
  let ?s = "start (init 8000)\<lparr>writer := Some 1\<rparr>"
  have 1: "read_on (feed_data (?quit @ ?ping) new_reader) = Chunk ?quit (feed_data ?ping new_reader)"
    by (simp add: read_on_def readuntil_def scan_def feed_data_def new_reader_def frame_def
        ascii_def CR_def LF_def)
  have 2: "serve python311 sample_loads sample_funcs ?quit ?s =
      (Some SystemExit, ?s\<lparr>exit_called := True\<rparr>)"
    by (simp add: serve_def request_def decode_ascii_def frame_def ascii_def str_def CR_def LF_def
        sample_loads_def typed_def sample_funcs_def leaving_def python311_def)
  have 3: "alive ?s"
    by (simp add: start_def)
  from 1 2 3 have "conn_loop python311 sample_loads sample_funcs
      (feed_data (?quit @ ?ping) new_reader) ?s =
      (LoopExit SystemExit, feed_data ?ping new_reader, ?s\<lparr>exit_called := True\<rparr>)"
    by (simp add: conn_loop_exit)
  then show ?thesis
    by (simp add: handle_connection_def guard_def start_def init_def)
qed

text \<open>
  C6, amended. A registered handler (under a name other than \<^verbatim>\<open>terminate\<close>) that raises:
  any exception raised in the frame of \<^verbatim>\<open>handle_connection\<close> (by the call itself or by
  \<open>wait_for\<close>, as \<^verbatim>\<open>TimeoutError\<close>), and any exception raised in the handler's body other
  than a \<^verbatim>\<open>SystemExit\<close> or \<^verbatim>\<open>KeyboardInterrupt\<close> under a \<open>wait_for\<close> that runs the
  handler in a task of its own. Then \<^verbatim>\<open>except: pass\<close> drops the exception, the server
  object is as the handler left it, and the loop goes on from there to its test and,
  while the liveness flag is set, to the next frame.
\<close>

theorem handler_exception_discarded:
  assumes "decode_ascii data = Inr line" and "loads line = Inr d"
    and "subscript_type d = Inr (JStr name)" and "name \<noteq> str ''terminate''"
    and "funcs name = Some h"
    and "h d s = (InCall e, s') \<or>
      h d s = (InBody e, s') \<and> \<not> (task_wait_for rt \<and> (e = SystemExit \<or> e = KeyboardInterrupt))"
  shows "request rt loads funcs line s = (Except e, s') \<and>
    serve rt loads funcs data s = (None, s') \<and>
    (\<forall>r r'. (waiter r \<noteq> Idle \<or> alive s) \<and> read_on r = Chunk data r' \<longrightarrow>
       conn_loop rt loads funcs r s = conn_loop rt loads funcs r' s' \<and>
       (\<forall>data' r''. alive s' \<and> read_on r' = Chunk data' r'' \<longrightarrow>
          conn_loop rt loads funcs r s =
            (case serve rt loads funcs data' s' of
               (Some e', s'') \<Rightarrow> (LoopExit e', r'', s'')
             | (None, s'') \<Rightarrow> conn_loop rt loads funcs r'' s'')))"
proof -
  from assms have left: "request rt loads funcs line s = (Except e, s')"
    by (auto simp: request_def str_def)
  with assms have served: "serve rt loads funcs data s = (None, s')"
    by (simp add: serve_def)
  show ?thesis
  proof (intro conjI allI impI)
    show "request rt loads funcs line s = (Except e, s')"
      by (rule left)
  next
    show "serve rt loads funcs data s = (None, s')"
      by (rule served)
  next
    fix r r'
    assume "(waiter r \<noteq> Idle \<or> alive s) \<and> read_on r = Chunk data r'"
    with served show "conn_loop rt loads funcs r s = conn_loop rt loads funcs r' s'"
      by (simp add: conn_loop_chunk)
  next
    fix r r' data' r''
    assume a: "(waiter r \<noteq> Idle \<or> alive s) \<and> read_on r = Chunk data r'"
      and b: "alive s' \<and> read_on r' = Chunk data' r''"
    from a served have "conn_loop rt loads funcs r s = conn_loop rt loads funcs r' s'"
      by (simp add: conn_loop_chunk)
    also from b have "\<dots> =
        (case serve rt loads funcs data' s' of
           (Some e', s'') \<Rightarrow> (LoopExit e', r'', s'')
         | (None, s'') \<Rightarrow> conn_loop rt loads funcs r'' s'')"
      by (subst conn_loop.simps) simp
    finally show "conn_loop rt loads funcs r s =
        (case serve rt loads funcs data' s' of
           (Some e', s'') \<Rightarrow> (LoopExit e', r'', s'')
         | (None, s'') \<Rightarrow> conn_loop rt loads funcs r'' s'')" .
  qed
qed

theorem handler_exception_discarded_witness:
  \<open>handle_connection python311 sample_loads sample_funcs
     (feed_data (frame ''{"type":"fail"}'' @ frame ''{"type":"ping"}'') new_reader) 1
     (start (init 8000)) =
   (Suspended, new_reader\<lparr>waiter := Waiting\<rparr>,
    start (init 8000)\<lparr>writer := Some 1, wire := [(1, ascii ''partial''), (1, ascii ''pong'')]\<rparr>)\<close>
proof -
  let ?fail = \<open>frame ''{"type":"fail"}''\<close>
  let ?ping = \<open>frame ''{"type":"ping"}''\<close>
  let ?s = "start (init 8000)\<lparr>writer := Some 1\<rparr>"
  let ?s' = "?s\<lparr>wire := [(1, ascii ''partial'')]\<rparr>"
  let ?s'' = "?s\<lparr>wire := [(1, ascii ''partial''), (1, ascii ''pong'')]\<rparr>"
  let ?r = "feed_data (?fail @ ?ping) new_reader"
  let ?r' = "feed_data ?ping new_reader"
  have 1: \<open>decode_ascii ?fail = Inr (str ''{"type":"fail"}'' @ [0x0D, 0x0A])\<close>
    by (simp add: decode_ascii_def frame_def ascii_def str_def CR_def LF_def)
  have 2: \<open>sample_loads (str ''{"type":"fail"}'' @ [0x0D, 0x0A]) = Inr (typed ''fail'')\<close>
    by (simp add: sample_loads_def str_def)
  have 3: "subscript_type (typed ''fail'') = Inr (JStr (str ''fail''))"
    by (simp add: typed_def)
  have 4: "str ''fail'' \<noteq> str ''terminate''"
    by (simp add: str_def)
  have 5: "sample_funcs (str ''fail'') = Some faulty"
    by (simp add: sample_funcs_def str_def)
  have 6: "faulty (typed ''fail'') ?s = (InCall (OtherException ''ValueError''), ?s') \<or>
      faulty (typed ''fail'') ?s = (InBody (OtherException ''ValueError''), ?s') \<and>
      \<not> (task_wait_for python311 \<and>
         (OtherException ''ValueError'' = SystemExit \<or> OtherException ''ValueError'' = KeyboardInterrupt))"
    by (simp add: faulty_def write_message_def start_def init_def str_def ascii_def)
  have 7: "read_on ?r = Chunk ?fail ?r'"
    by (simp add: read_on_def readuntil_def scan_def feed_data_def new_reader_def frame_def
        ascii_def CR_def LF_def)
  have 8: "read_on ?r' = Chunk ?ping new_reader"
    by (simp add: read_on_def readuntil_def scan_def feed_data_def new_reader_def frame_def
        ascii_def CR_def LF_def)
  have 9: "alive ?s \<and> alive ?s' \<and> alive ?s''"
    by (simp add: start_def)
  have 10: "serve python311 sample_loads sample_funcs ?ping ?s' = (None, ?s'')"
    by (simp add: serve_def request_def decode_ascii_def frame_def ascii_def str_def CR_def LF_def
        sample_loads_def typed_def sample_funcs_def pong_def write_message_def start_def init_def)
  have 11: "read_on new_reader = Pending (new_reader\<lparr>waiter := Waiting\<rparr>)"
    by (simp add: read_on_def readuntil_def scan_def new_reader_def)
  from handler_exception_discarded [where loads = sample_loads and funcs = sample_funcs
      and s = ?s and data = ?fail and rt = python311, OF 1 2 3 4 5 6] 7 8 9
  have "conn_loop python311 sample_loads sample_funcs ?r ?s =
      (case serve python311 sample_loads sample_funcs ?ping ?s' of
         (Some e', s'') \<Rightarrow> (LoopExit e', new_reader, s'')
       | (None, s'') \<Rightarrow> conn_loop python311 sample_loads sample_funcs new_reader s'')"
    by blast
  with 10 11 9 show ?thesis
    by (simp add: handle_connection_def guard_def conn_loop_pending start_def)
qed

text \<open>
  C7, as stated, fails for one type that the registry does not hold: \<^verbatim>\<open>terminate\<close>. With
  an empty registry the frame is not dropped; it stops the server, the liveness flag
  becomes false and the frame after it is never read.
\<close>

theorem unregistered_terminate_stops:
  \<open>sample_loads (str ''{"type":"terminate"}'' @ [0x0D, 0x0A]) = Inr (typed ''terminate'') \<and>
   get_handler (\<lambda>name. None) (JStr (str ''terminate'')) = Inr None \<and>
   handle_connection python311 sample_loads (\<lambda>name. None)
     (feed_data (frame ''{"type":"terminate"}'' @ frame ''{"type":"ping"}'') new_reader) 1
     (start (init 8000)) =
   (Returned, feed_data (frame ''{"type":"ping"}'') new_reader,
    init 8000\<lparr>writer := Some 1, loop := Some Stopping, alive := False, exit_called := True\<rparr>)\<close>
proof -
  let ?halt = \<open>frame ''{"type":"terminate"}''\<close>
  let ?ping = \<open>frame ''{"type":"ping"}''\<close>
  let ?s = "start (init 8000)\<lparr>writer := Some 1\<rparr>"
  let ?s' = "init 8000\<lparr>writer := Some 1, loop := Some Stopping, alive := False, exit_called := True\<rparr>"
  have 1: "read_on (feed_data (?halt @ ?ping) new_reader) = Chunk ?halt (feed_data ?ping new_reader)"
    by (simp add: read_on_def readuntil_def scan_def feed_data_def new_reader_def frame_def
        ascii_def CR_def LF_def)
  have 2: "serve python311 sample_loads (\<lambda>name. None) ?halt ?s = (None, ?s')"
    by (simp add: serve_def request_def decode_ascii_def frame_def ascii_def str_def CR_def LF_def
        sample_loads_def typed_def stop_def start_def init_def)
  have 3: "alive ?s \<and> \<not> alive ?s' \<and> waiter (feed_data ?ping new_reader) = Idle"
    by (simp add: start_def init_def feed_data_def new_reader_def)
  from 1 2 3 have "conn_loop python311 sample_loads (\<lambda>name. None)
      (feed_data (?halt @ ?ping) new_reader) ?s = (Returned, feed_data ?ping new_reader, ?s')"
    by (simp add: conn_loop_chunk conn_loop_dead)
  moreover have \<open>sample_loads (str ''{"type":"terminate"}'' @ [0x0D, 0x0A]) = Inr (typed ''terminate'')\<close>
    by (simp add: sample_loads_def str_def)
  ultimately show ?thesis
    by (simp add: handle_connection_def guard_def start_def init_def)
qed

text \<open>
  C7, amended. A frame is dropped with no effect at all on the server object (no
  handler runs, nothing is written, the liveness flag stays as it is) and the loop
  goes on to the next read, when its bytes are not ASCII, when \<^verbatim>\<open>json.loads\<close> raises,
  when the value is not a dict or has no key \<open>type\<close>, when the \<open>type\<close> is not a string,
  or when it is a string other than the reserved \<^verbatim>\<open>terminate\<close> that the registry does
  not hold.
\<close>

theorem malformed_frame_discarded:
  assumes "(\<exists>e. decode_ascii data = Inl e) \<or>
     (\<exists>line. decode_ascii data = Inr line \<and>
        ((\<exists>e. loads line = Inl e) \<or>
         (\<exists>d. loads line = Inr d \<and>
            ((\<exists>e. subscript_type d = Inl e) \<or>
             (\<exists>t. subscript_type d = Inr t \<and> (\<forall>name. t \<noteq> JStr name)) \<or>
             (\<exists>name. subscript_type d = Inr (JStr name) \<and> name \<noteq> str ''terminate'' \<and>
                funcs name = None)))))"
  shows "serve rt loads funcs data s = (None, s) \<and>
    (\<forall>r r'. (waiter r \<noteq> Idle \<or> alive s) \<and> read_on r = Chunk data r' \<longrightarrow>
       conn_loop rt loads funcs r s = conn_loop rt loads funcs r' s)"
proof -
  have no_str: "\<And>t. \<forall>name. t \<noteq> JStr name \<Longrightarrow> \<forall>h. get_handler funcs t \<noteq> Inr (Some h)"
  proof -
    fix t :: json
    assume "\<forall>name. t \<noteq> JStr name"
    then show "\<forall>h. get_handler funcs t \<noteq> Inr (Some h)"
      by (cases t) simp_all
  qed
  from assms have served: "serve rt loads funcs data s = (None, s)"
    by (auto simp: serve_def request_def str_def dest: no_str
        split: sum.splits option.splits flow.splits prod.splits)
  then show ?thesis
    by (auto simp: conn_loop_chunk)
qed

theorem malformed_frame_discarded_witness:
  \<open>handle_connection python311 sample_loads sample_funcs
     (feed_data (frame ''not json'' @ frame ''{"type":"ping"}'') new_reader) 1
     (start (init 8000)) =
   (Suspended, new_reader\<lparr>waiter := Waiting\<rparr>,
    start (init 8000)\<lparr>writer := Some 1, wire := [(1, ascii ''pong'')]\<rparr>) \<and>
   serve python311 sample_loads sample_funcs [0xFF, CR, LF] (start (init 8000)\<lparr>writer := Some 1\<rparr>) =
     (None, start (init 8000)\<lparr>writer := Some 1\<rparr>) \<and>
   serve python311 sample_loads sample_funcs (frame ''[1]'') (start (init 8000)\<lparr>writer := Some 1\<rparr>) =
     (None, start (init 8000)\<lparr>writer := Some 1\<rparr>) \<and>
   serve python311 sample_loads sample_funcs (frame ''{"kind":"ping"}'')
       (start (init 8000)\<lparr>writer := Some 1\<rparr>) =
     (None, start (init 8000)\<lparr>writer := Some 1\<rparr>) \<and>
   serve python311 sample_loads sample_funcs (frame ''{"type":"nope"}'')
       (start (init 8000)\<lparr>writer := Some 1\<rparr>) =
     (None, start (init 8000)\<lparr>writer := Some 1\<rparr>)\<close>
proof -
  let ?bad = "frame ''not json''"
  let ?ping = \<open>frame ''{"type":"ping"}''\<close>
  let ?s = "start (init 8000)\<lparr>writer := Some 1\<rparr>"
  let ?s' = "?s\<lparr>wire := [(1, ascii ''pong'')]\<rparr>"
  let ?r = "feed_data (?bad @ ?ping) new_reader"
  let ?r' = "feed_data ?ping new_reader"
  have 1: "\<exists>line. decode_ascii ?bad = Inr line \<and> (\<exists>e. sample_loads line = Inl e)"
    by (simp add: decode_ascii_def frame_def ascii_def CR_def LF_def sample_loads_def str_def)
  have 2: "\<exists>e. decode_ascii [0xFF, CR, LF] = Inl e"
    by (simp add: decode_ascii_def)
  have 3: "\<exists>line. decode_ascii (frame ''[1]'') = Inr line \<and>
      (\<exists>d. sample_loads line = Inr d \<and> (\<exists>e. subscript_type d = Inl e))"
    by (simp add: decode_ascii_def frame_def ascii_def CR_def LF_def sample_loads_def str_def)
  have 4: \<open>\<exists>line. decode_ascii (frame ''{"kind":"ping"}'') = Inr line \<and>
      (\<exists>d. sample_loads line = Inr d \<and> (\<exists>e. subscript_type d = Inl e))\<close>
    by (simp add: decode_ascii_def frame_def ascii_def CR_def LF_def sample_loads_def str_def)
  have 5: \<open>\<exists>line. decode_ascii (frame ''{"type":"nope"}'') = Inr line \<and>
      (\<exists>d. sample_loads line = Inr d \<and>
         (\<exists>name. subscript_type d = Inr (JStr name) \<and> name \<noteq> str ''terminate'' \<and>
            sample_funcs name = None))\<close>
    by (simp add: decode_ascii_def frame_def ascii_def CR_def LF_def sample_loads_def str_def
        typed_def sample_funcs_def)
  have 6: "read_on ?r = Chunk ?bad ?r'"
    by (simp add: read_on_def readuntil_def scan_def feed_data_def new_reader_def frame_def
        ascii_def CR_def LF_def)
  have 7: "read_on ?r' = Chunk ?ping new_reader"
    by (simp add: read_on_def readuntil_def scan_def feed_data_def new_reader_def frame_def
        ascii_def CR_def LF_def)
  have 8: "read_on new_reader = Pending (new_reader\<lparr>waiter := Waiting\<rparr>)"
    by (simp add: read_on_def readuntil_def scan_def new_reader_def)
  have 9: "serve python311 sample_loads sample_funcs ?ping ?s = (None, ?s')"
    by (simp add: serve_def request_def decode_ascii_def frame_def ascii_def str_def CR_def LF_def
        sample_loads_def typed_def sample_funcs_def pong_def write_message_def start_def init_def)
  have 10: "alive ?s \<and> alive ?s'"
    by (simp add: start_def)
  from malformed_frame_discarded [where loads = sample_loads and funcs = sample_funcs
      and data = ?bad and s = ?s and rt = python311] 1 6 10
  have "conn_loop python311 sample_loads sample_funcs ?r ?s =
      conn_loop python311 sample_loads sample_funcs ?r' ?s"
    by blast
  also have "\<dots> = conn_loop python311 sample_loads sample_funcs new_reader ?s'"
    using 7 9 10 by (simp add: conn_loop_chunk)
  also have "\<dots> = (Suspended, new_reader\<lparr>waiter := Waiting\<rparr>, ?s')"
    using 8 10 by (simp add: conn_loop_pending)
  finally have run: "handle_connection python311 sample_loads sample_funcs ?r 1 (start (init 8000)) =
      (Suspended, new_reader\<lparr>waiter := Waiting\<rparr>, ?s')"
    by (simp add: handle_connection_def guard_def)
  from malformed_frame_discarded [where loads = sample_loads and funcs = sample_funcs
      and data = "[0xFF, CR, LF]" and s = ?s and rt = python311] 2
  have a: "serve python311 sample_loads sample_funcs [0xFF, CR, LF] ?s = (None, ?s)"
    by blast
  from malformed_frame_discarded [where loads = sample_loads and funcs = sample_funcs
      and data = "frame ''[1]''" and s = ?s and rt = python311] 3
  have b: "serve python311 sample_loads sample_funcs (frame ''[1]'') ?s = (None, ?s)"
    by blast
  from malformed_frame_discarded [where loads = sample_loads and funcs = sample_funcs
      and data = \<open>frame ''{"kind":"ping"}''\<close> and s = ?s and rt = python311] 4
  have c: \<open>serve python311 sample_loads sample_funcs (frame ''{"kind":"ping"}'') ?s = (None, ?s)\<close>
    by blast
  from malformed_frame_discarded [where loads = sample_loads and funcs = sample_funcs
      and data = \<open>frame ''{"type":"nope"}''\<close> and s = ?s and rt = python311] 5
  have d: \<open>serve python311 sample_loads sample_funcs (frame ''{"type":"nope"}'') ?s = (None, ?s)\<close>
    by blast
  from run a b c d show ?thesis
    by simp
qed

section \<open>Connection errors and the shared writer\<close>

lemma guard_not_connection_error:
  "connection_error e \<Longrightarrow> fst (guard rt res) \<noteq> Raised e"
proof (cases res)
  case (fields st r s)
  assume e: "connection_error e"
  show ?thesis
  proof (cases st)
    case (Raised e')
    with fields e show ?thesis by (auto simp: guard_def)
  qed (simp_all add: fields guard_def)
qed

lemma read_on_connection_lost:
  assumes "(\<exists>e. connection_error e \<and> (waiter r = Failed e \<or> waiter r = Idle \<and> exc r = Some e)) \<or>
     ((waiter r = Woken \<or> waiter r = Idle \<and> exc r = None) \<and> eof r \<and>
        find_crlf (buffer r) = None \<and> length (buffer r) \<le> limit r + 1)"
  shows "\<exists>e r'. read_on r = Raises e r' \<and> connection_error e"
  using assms by (auto simp: read_on_def readuntil_def scan_def)

text \<open>
  C8, as stated, fails in two ways. Where the names of the \<^verbatim>\<open>except\<close> clause resolve,
  a stream that closes with more than \<open>limit + 1\<close> bytes of a frame and no delimiter
  makes the read raise \<^verbatim>\<open>LimitOverrunError\<close>, which the clause does not catch: the
  exception leaves \<^verbatim>\<open>handle_connection\<close> and the writer reference stays. Where
  \<^verbatim>\<open>asyncio.streams.IncompleteReadError\<close> does not resolve, a reset connection and a
  stream closed in the middle of a frame both leave \<^verbatim>\<open>handle_connection\<close> as an
  \<^verbatim>\<open>AttributeError\<close>, and the writer reference stays.
\<close>

theorem connection_error_not_contained:
  "handle_connection python37 sample_loads sample_funcs
     (feed_eof (feed_data (oversized @ ascii ''a'') new_reader)) 1 (start (init 8000)) =
   (Raised LimitOverrunError, feed_eof (feed_data (oversized @ ascii ''a'') new_reader),
    start (init 8000)\<lparr>writer := Some 1\<rparr>) \<and>
   find_crlf (oversized @ ascii ''a'') = None \<and>
   handle_connection python311 sample_loads sample_funcs
     (set_exception ConnectionResetError new_reader) 1 (start (init 8000)) =
   (Raised AttributeError, set_exception ConnectionResetError new_reader,
    start (init 8000)\<lparr>writer := Some 1\<rparr>) \<and>
   handle_connection python311 sample_loads sample_funcs
     (feed_eof (feed_data (ascii ''{'') new_reader)) 1 (start (init 8000)) =
   (Raised AttributeError, feed_eof new_reader, start (init 8000)\<lparr>writer := Some 1\<rparr>)"
proof -
  let ?s = "start (init 8000)\<lparr>writer := Some 1\<rparr>"
  let ?big = "feed_eof (feed_data (oversized @ ascii ''a'') new_reader)"
  have "CR \<notin> set (oversized @ ascii ''a'')"
    by (simp add: oversized_def ascii_def CR_def)
  then have none: "find_crlf (oversized @ ascii ''a'') = None"
    by (rule find_crlf_no_CR)
  have len: "length (oversized @ ascii ''a'') = 65538"
    by (simp add: oversized_def ascii_def)
  have buf: "buffer ?big = oversized @ ascii ''a'' \<and> exc ?big = None \<and> limit ?big = 65536 \<and>
      waiter ?big = Idle"
    by (simp add: feed_eof_def feed_data_def new_reader_def oversized_def ascii_def)
  have "read_on ?big = Raises LimitOverrunError ?big"
    using none len buf by (simp add: read_on_def readuntil_def scan_def)
  moreover have "alive ?s"
    by (simp add: start_def)
  ultimately have "conn_loop python37 sample_loads sample_funcs ?big ?s =
      (Raised LimitOverrunError, ?big, ?s)"
    by (simp add: conn_loop_raises)
  then have a: "handle_connection python37 sample_loads sample_funcs ?big 1 (start (init 8000)) =
      (Raised LimitOverrunError, ?big, ?s)"
    by (simp add: handle_connection_def guard_def python37_def)
  have b: "handle_connection python311 sample_loads sample_funcs
     (set_exception ConnectionResetError new_reader) 1 (start (init 8000)) =
   (Raised AttributeError, set_exception ConnectionResetError new_reader, ?s)"
    by (simp add: handle_connection_def guard_def python311_def conn_loop.simps read_on_def
        readuntil_def set_exception_def new_reader_def start_def init_def)
  have c: "handle_connection python311 sample_loads sample_funcs
     (feed_eof (feed_data (ascii ''{'') new_reader)) 1 (start (init 8000)) =
   (Raised AttributeError, feed_eof new_reader, ?s)"
    by (simp add: handle_connection_def guard_def python311_def conn_loop.simps read_on_def
        readuntil_def scan_def feed_eof_def feed_data_def new_reader_def ascii_def CR_def LF_def
        start_def init_def)
  from a none b c show ?thesis
    by simp
qed

text \<open>
  C8, amended. Where the names of the \<^verbatim>\<open>except\<close> clause resolve, and the coroutine is
  in its loop (suspended in the read, or at the test with the liveness flag set): a
  connection error that the transport gave to the suspended read or stored in the
  reader, and the end of the stream with no delimiter in a buffer of at most
  \<open>limit + 1\<close> bytes, end the loop. The coroutine returns, the writer reference is
  \<^verbatim>\<open>None\<close>, and nothing else of the server object changes. However many frames the
  loop has served before, an exception of these classes raised by the read sets the
  writer to \<^verbatim>\<open>None\<close> and does not leave \<^verbatim>\<open>handle_connection\<close>.
\<close>

theorem connection_error_ends_session:
  assumes "streams_exports rt"
    and "(\<exists>e. connection_error e \<and> (waiter r = Failed e \<or> waiter r = Idle \<and> exc r = Some e)) \<or>
     ((waiter r = Woken \<or> waiter r = Idle \<and> exc r = None) \<and> eof r \<and>
        find_crlf (buffer r) = None \<and> length (buffer r) \<le> limit r + 1)"
    and "waiter r \<noteq> Idle \<or> alive s"
  shows "(\<exists>r'. handle_connection rt loads funcs r w s = (Returned, r', s\<lparr>writer := None\<rparr>)) \<and>
    (\<exists>r'. resume rt loads funcs r s = (Returned, r', s\<lparr>writer := None\<rparr>)) \<and>
    (\<forall>r0 s0 e r1 s1. conn_loop rt loads funcs r0 s0 = (Raised e, r1, s1) \<and> connection_error e \<longrightarrow>
       guard rt (conn_loop rt loads funcs r0 s0) = (Returned, r1, s1\<lparr>writer := None\<rparr>)) \<and>
    (\<forall>e r0 w0 s0. connection_error e \<longrightarrow>
       fst (handle_connection rt loads funcs r0 w0 s0) \<noteq> Raised e \<and>
       fst (resume rt loads funcs r0 s0) \<noteq> Raised e)"
proof -
  from read_on_connection_lost [OF assms(2)]
  obtain e r' where read: "read_on r = Raises e r'" and e: "connection_error e"
    by blast
  from assms(3) have "waiter r \<noteq> Idle \<or> alive (s\<lparr>writer := Some w\<rparr>)"
    by simp
  then have "conn_loop rt loads funcs r (s\<lparr>writer := Some w\<rparr>) =
      (Raised e, r', s\<lparr>writer := Some w\<rparr>)"
    using read by (rule conn_loop_raises)
  with e assms(1) have "handle_connection rt loads funcs r w s = (Returned, r', s\<lparr>writer := None\<rparr>)"
    by (simp add: handle_connection_def guard_def)
  then have first: "\<exists>r'. handle_connection rt loads funcs r w s = (Returned, r', s\<lparr>writer := None\<rparr>)"
    by blast
  from assms(3) read have "conn_loop rt loads funcs r s = (Raised e, r', s)"
    by (rule conn_loop_raises)
  with e assms(1) have "resume rt loads funcs r s = (Returned, r', s\<lparr>writer := None\<rparr>)"
    by (simp add: resume_def guard_def)
  then have second: "\<exists>r'. resume rt loads funcs r s = (Returned, r', s\<lparr>writer := None\<rparr>)"
    by blast
  have third: "\<forall>r0 s0 e r1 s1. conn_loop rt loads funcs r0 s0 = (Raised e, r1, s1) \<and> connection_error e \<longrightarrow>
       guard rt (conn_loop rt loads funcs r0 s0) = (Returned, r1, s1\<lparr>writer := None\<rparr>)"
    using assms(1) by (simp add: guard_def)
  have fourth: "\<forall>e r0 w0 s0. connection_error e \<longrightarrow>
       fst (handle_connection rt loads funcs r0 w0 s0) \<noteq> Raised e \<and>
       fst (resume rt loads funcs r0 s0) \<noteq> Raised e"
    by (simp add: handle_connection_def resume_def guard_not_connection_error)
  from first second third fourth show ?thesis
    by blast
qed

theorem connection_error_ends_session_witness:
  \<open>handle_connection python37 sample_loads sample_funcs
     (feed_eof (feed_data (frame ''{"type":"ping"}'' @ ascii ''{"type":"pi'') new_reader)) 1
     (start (init 8000)) =
   (Returned, feed_eof new_reader,
    start (init 8000)\<lparr>writer := None, wire := [(1, ascii ''pong'')]\<rparr>) \<and>
   resume python37 sample_loads sample_funcs
     (set_exception ConnectionResetError (new_reader\<lparr>waiter := Waiting\<rparr>))
     (start (init 8000)\<lparr>writer := Some 2\<rparr>) =
   (Returned, new_reader\<lparr>exc := Some ConnectionResetError\<rparr>, start (init 8000)\<lparr>writer := None\<rparr>) \<and>
   resume python37 sample_loads sample_funcs
     (set_exception ConnectionResetError
        (feed_data (frame ''{"type":"ping"}'') (new_reader\<lparr>waiter := Waiting\<rparr>)))
     (start (init 8000)\<lparr>writer := Some 2\<rparr>) =
   (Returned, new_reader\<lparr>exc := Some ConnectionResetError\<rparr>,
    start (init 8000)\<lparr>writer := None, wire := [(2, ascii ''pong'')]\<rparr>)\<close>
proof -
  let ?ping = \<open>frame ''{"type":"ping"}''\<close>
  let ?part = \<open>ascii ''{"type":"pi''\<close>
  let ?s = "start (init 8000)\<lparr>writer := Some 1\<rparr>"
  let ?s' = "start (init 8000)\<lparr>writer := Some 1, wire := [(1, ascii ''pong'')]\<rparr>"
  let ?t = "start (init 8000)\<lparr>writer := Some 2\<rparr>"
  let ?t' = "start (init 8000)\<lparr>writer := Some 2, wire := [(2, ascii ''pong'')]\<rparr>"
  let ?r = "feed_eof (feed_data (?ping @ ?part) new_reader)"
  let ?r' = "feed_eof (feed_data ?part new_reader)"
  let ?x = "set_exception ConnectionResetError (new_reader\<lparr>waiter := Waiting\<rparr>)"
  let ?y = "set_exception ConnectionResetError (feed_data ?ping (new_reader\<lparr>waiter := Waiting\<rparr>))"
  let ?y' = "new_reader\<lparr>exc := Some ConnectionResetError\<rparr>"
  have py: "streams_exports python37"
    by (simp add: python37_def)
  have 1: "read_on ?r = Chunk ?ping ?r'"
    by (simp add: read_on_def readuntil_def scan_def feed_data_def feed_eof_def new_reader_def
        frame_def ascii_def CR_def LF_def)
  have 2: "serve python37 sample_loads sample_funcs ?ping ?s = (None, ?s')"
    by (simp add: serve_def request_def decode_ascii_def frame_def ascii_def str_def CR_def LF_def
        sample_loads_def typed_def sample_funcs_def pong_def write_message_def start_def init_def)
  have 3: "(waiter ?r' = Woken \<or> waiter ?r' = Idle \<and> exc ?r' = None) \<and> eof ?r' \<and>
      find_crlf (buffer ?r') = None \<and> length (buffer ?r') \<le> limit ?r' + 1"
    by (simp add: feed_data_def feed_eof_def new_reader_def ascii_def CR_def LF_def)
  have 4: "connection_error ConnectionResetError \<and> waiter ?x = Failed ConnectionResetError"
    by (simp add: set_exception_def)
  have 5: "alive ?s \<and> alive ?s' \<and> alive ?t \<and> alive ?t'"
    by (simp add: start_def)
  have 6: "read_on ?r' = Raises (IncompleteReadError ?part) (feed_eof new_reader)"
    by (simp add: read_on_def readuntil_def scan_def feed_data_def feed_eof_def new_reader_def
        ascii_def CR_def LF_def)
  have 7: "read_on ?x = Raises ConnectionResetError ?y'"
    by (simp add: read_on_def set_exception_def new_reader_def)
  have 8: "read_on ?y = Chunk ?ping ?y'"
    by (simp add: read_on_def scan_def set_exception_def feed_data_def new_reader_def
        frame_def ascii_def CR_def LF_def)
  have 9: "serve python37 sample_loads sample_funcs ?ping ?t = (None, ?t')"
    by (simp add: serve_def request_def decode_ascii_def frame_def ascii_def str_def CR_def LF_def
        sample_loads_def typed_def sample_funcs_def pong_def write_message_def start_def init_def)
  have 10: "connection_error ConnectionResetError \<and> waiter ?y' = Idle \<and>
      exc ?y' = Some ConnectionResetError"
    by (simp add: new_reader_def)
  have 11: "read_on ?y' = Raises ConnectionResetError ?y'"
    by (simp add: read_on_def readuntil_def new_reader_def)
  have a: "conn_loop python37 sample_loads sample_funcs ?r ?s =
      conn_loop python37 sample_loads sample_funcs ?r' ?s'"
    using 1 2 5 by (simp add: conn_loop_chunk)
  from connection_error_ends_session [where rt = python37 and loads = sample_loads
      and funcs = sample_funcs and r = ?r' and s = ?s' and w = 1, OF py] 3 5
  have b: "\<exists>r'. resume python37 sample_loads sample_funcs ?r' ?s' = (Returned, r', ?s'\<lparr>writer := None\<rparr>)"
    by blast
  from connection_error_ends_session [where rt = python37 and loads = sample_loads
      and funcs = sample_funcs and r = ?x and s = ?t and w = 1, OF py] 4
  have c: "\<exists>r'. resume python37 sample_loads sample_funcs ?x ?t = (Returned, r', ?t\<lparr>writer := None\<rparr>)"
    by simp
  have d: "conn_loop python37 sample_loads sample_funcs ?y ?t =
      conn_loop python37 sample_loads sample_funcs ?y' ?t'"
    using 8 9 5 by (simp add: conn_loop_chunk)
  from connection_error_ends_session [where rt = python37 and loads = sample_loads
      and funcs = sample_funcs and r = ?y' and s = ?t' and w = 1, OF py] 10 5
  have e: "\<exists>r'. resume python37 sample_loads sample_funcs ?y' ?t' = (Returned, r', ?t'\<lparr>writer := None\<rparr>)"
    by blast
  have r1: "resume python37 sample_loads sample_funcs ?r' ?s' =
      (Returned, feed_eof new_reader, ?s'\<lparr>writer := None\<rparr>)"
    using 5 6 by (simp add: resume_def guard_def conn_loop_raises python37_def)
  have r2: "resume python37 sample_loads sample_funcs ?x ?t = (Returned, ?y', ?t\<lparr>writer := None\<rparr>)"
    using 5 7 by (simp add: resume_def guard_def conn_loop_raises python37_def)
  have r3: "resume python37 sample_loads sample_funcs ?y' ?t' = (Returned, ?y', ?t'\<lparr>writer := None\<rparr>)"
    using 5 11 by (simp add: resume_def guard_def conn_loop_raises python37_def)
  have first: "handle_connection python37 sample_loads sample_funcs ?r 1 (start (init 8000)) =
      (Returned, feed_eof new_reader, ?s'\<lparr>writer := None\<rparr>)"
    using a r1 by (simp add: handle_connection_def resume_def)
  have third: "resume python37 sample_loads sample_funcs ?y ?t = (Returned, ?y', ?t'\<lparr>writer := None\<rparr>)"
    using d r3 by (simp add: resume_def)
  from b c e first r2 third show ?thesis
    by (simp add: start_def init_def)
qed

text \<open>
  The server object holds one writer reference. Each accepted connection stores its
  own writer there, so \<open>write\<close> goes to the connection accepted last; and where the
  names of the \<^verbatim>\<open>except\<close> clause resolve, a connection error on an earlier connection
  sets the reference to \<^verbatim>\<open>None\<close> although it held the writer of a later one.
\<close>

lemma accept_overwrites_writer:
  assumes "alive s" and "read_on r = Pending r'"
  shows "handle_connection rt loads funcs r w s = (Suspended, r', s\<lparr>writer := Some w\<rparr>)"
  using assms by (simp add: handle_connection_def guard_def conn_loop_pending)

lemma write_goes_to_last_accepted:
  assumes "encode (replace_percent message) = Inr bs"
  shows "write_message None message (s\<lparr>writer := Some w\<rparr>) =
      (Inr True, s\<lparr>writer := Some w, wire := wire s @ [(w, bs)]\<rparr>)"
  using assms by (simp add: write_message_def)

lemma error_elsewhere_clears_writer:
  assumes "streams_exports rt" and "connection_error e" and "waiter rA = Waiting"
  shows "resume rt loads funcs (set_exception e rA) (s\<lparr>writer := Some wB\<rparr>) =
      (Returned, set_exception e rA\<lparr>waiter := Idle\<rparr>, s\<lparr>writer := None\<rparr>)"
proof -
  have "read_on (set_exception e rA) = Raises e (set_exception e rA\<lparr>waiter := Idle\<rparr>)"
    using assms(3) by (simp add: read_on_def set_exception_def)
  moreover have "waiter (set_exception e rA) \<noteq> Idle"
    using assms(3) by (simp add: set_exception_def)
  ultimately have "conn_loop rt loads funcs (set_exception e rA) (s\<lparr>writer := Some wB\<rparr>) =
      (Raised e, set_exception e rA\<lparr>waiter := Idle\<rparr>, s\<lparr>writer := Some wB\<rparr>)"
    by (simp add: conn_loop_raises)
  with assms(1,2) show ?thesis
    by (simp add: resume_def guard_def)
qed

text \<open>
  C10. The claim: a connection error on any one connection sets the shared writer
  reference to \<^verbatim>\<open>None\<close>, also when another, still live connection set it last. The
  code under Python 3.11: two connections are accepted, the second one's writer is the
  shared reference and \<open>write\<close> goes to it; the first connection is reset while its
  read is suspended. Looking up \<^verbatim>\<open>asyncio.streams.IncompleteReadError\<close> raises
  \<^verbatim>\<open>AttributeError\<close>, which leaves \<^verbatim>\<open>handle_connection\<close>, and the reference is still the
  second connection's writer.
\<close>

theorem shared_writer_not_cleared:
  "handle_connection python311 sample_loads sample_funcs new_reader 1 (start (init 8000)) =
     (Suspended, new_reader\<lparr>waiter := Waiting\<rparr>, start (init 8000)\<lparr>writer := Some 1\<rparr>) \<and>
   handle_connection python311 sample_loads sample_funcs new_reader 2
       (start (init 8000)\<lparr>writer := Some 1\<rparr>) =
     (Suspended, new_reader\<lparr>waiter := Waiting\<rparr>, start (init 8000)\<lparr>writer := Some 2\<rparr>) \<and>
   write_message None (str ''pong'') (start (init 8000)\<lparr>writer := Some 2\<rparr>) =
     (Inr True, start (init 8000)\<lparr>writer := Some 2, wire := [(2, ascii ''pong'')]\<rparr>) \<and>
   resume python311 sample_loads sample_funcs
       (set_exception ConnectionResetError (new_reader\<lparr>waiter := Waiting\<rparr>))
       (start (init 8000)\<lparr>writer := Some 2\<rparr>) =
     (Raised AttributeError, new_reader\<lparr>exc := Some ConnectionResetError\<rparr>,
      start (init 8000)\<lparr>writer := Some 2\<rparr>) \<and>
   writer (start (init 8000)\<lparr>writer := Some 2\<rparr>) \<noteq> None"
  by (simp add: handle_connection_def resume_def guard_def python311_def conn_loop.simps
      read_on_def readuntil_def scan_def set_exception_def new_reader_def write_message_def
      str_def ascii_def start_def init_def)

end
